theory Spec2Isabelle
  imports Main "HOL-Library.AList" "HOL-Library.Signed_Division"
begin

section \<open>Time\<close>

text \<open>
  A \<^verbatim>\<open>time.Time\<close> is modelled as an instant counted in nanoseconds, a
  \<^verbatim>\<open>time.Duration\<close> as a number of nanoseconds. Every operation that reads
  \<^verbatim>\<open>time.Now()\<close> takes the instant as the argument \<open>now\<close>; the readings
  taken inside one critical section of the source are identified with that one instant.
  \<^verbatim>\<open>a.After(b)\<close> is \<open>b < a\<close>, \<^verbatim>\<open>a.Before(b)\<close> is \<open>a < b\<close>,
  \<^verbatim>\<open>a.Sub(b)\<close> is \<open>a - b\<close> and \<^verbatim>\<open>a.Add(d)\<close> is \<open>a + d\<close>.
  Go's \<^verbatim>\<open>int\<close> and \<^verbatim>\<open>int64\<close> values (instants, durations, event counters,
  configured limits) are integers here: the code adds one to a counter or subtracts two
  instants, and no statement below depends on a value near \<open>2 ^ 63\<close>; where
  \<^verbatim>\<open>Sub\<close> would saturate, the comparisons made on its result come out the same.
\<close>

type_synonym time = int
type_synonym duration = int

definition Second :: duration where
  "Second = 1000000000"

definition Minute :: duration where
  "Minute = 60 * Second"

section \<open>Stream keys (pkg/streaming/streamkey.go)\<close>

record StreamPermissions =
  CanPublishVideo :: bool
  CanPublishAudio :: bool
  CanScreenShare :: bool
  CanRecord :: bool
  MaxViewers :: int
  MaxDurationMins :: int
  EnableChat :: bool
  EnableReactions :: bool
  EnableModeration :: bool

record StreamKey =
  sk_Key :: string
  sk_StreamerID :: string
  sk_RoomName :: string
  sk_IsActive :: bool
  sk_CreatedAt :: time
  sk_ExpiresAt :: "time option"
  sk_Metadata :: "string \<rightharpoonup> string"
  sk_UsageCount :: int
  sk_LastUsedAt :: "time option"
  sk_Permissions :: StreamPermissions

text \<open>
  The manager's \<^verbatim>\<open>keys\<close> map is an association list with one entry per key
  (two of its operations range over it); \<^verbatim>\<open>streamerKeys\<close> is the index from a
  streamer to the keys generated for them, in generation order.
\<close>

record StreamKeyManager =
  keys :: "(string \<times> StreamKey) list"
  streamerKeys :: "string \<rightharpoonup> string list"

datatype skm_error = KeyNotFound | KeyInactive | KeyExpired | RandomFailed

definition NewStreamKeyManager :: StreamKeyManager where
  "NewStreamKeyManager = \<lparr>keys = [], streamerKeys = Map.empty\<rparr>"

definition defaultPermissions :: StreamPermissions where
  "defaultPermissions =
     \<lparr>CanPublishVideo = True, CanPublishAudio = True, CanScreenShare = True,
      CanRecord = False, MaxViewers = 10000, MaxDurationMins = 180,
      EnableChat = True, EnableReactions = True, EnableModeration = True\<rparr>"

text \<open>
  \<^verbatim>\<open>GenerateStreamKey\<close>. The argument \<open>rnd\<close> is what \<^verbatim>\<open>crypto/rand\<close> delivers:
  \<open>None\<close> when \<^verbatim>\<open>rand.Read\<close> fails, otherwise the hex encoding of the 32 bytes
  read (the key, 64 hexadecimal digits, so that the prefix \<^verbatim>\<open>key[:8]\<close> written to
  the log always exists). Logging is not modelled.
\<close>

definition GenerateStreamKey ::
  "StreamKeyManager \<Rightarrow> string \<Rightarrow> string \<Rightarrow> StreamPermissions option \<Rightarrow> duration option
     \<Rightarrow> string option \<Rightarrow> time \<Rightarrow> skm_error + (StreamKeyManager \<times> StreamKey)" where
  "GenerateStreamKey m streamerID roomName permissions expiresIn rnd now =
     (case rnd of
        None \<Rightarrow> Inl RandomFailed
      | Some key \<Rightarrow>
          let perms = (case permissions of None \<Rightarrow> defaultPermissions | Some p \<Rightarrow> p);
              streamKey = \<lparr>sk_Key = key, sk_StreamerID = streamerID, sk_RoomName = roomName,
                           sk_IsActive = True, sk_CreatedAt = now,
                           sk_ExpiresAt = (case expiresIn of None \<Rightarrow> None | Some d \<Rightarrow> Some (now + d)),
                           sk_Metadata = Map.empty, sk_UsageCount = 0, sk_LastUsedAt = None,
                           sk_Permissions = perms\<rparr>;
              old = (case streamerKeys m streamerID of None \<Rightarrow> [] | Some ks \<Rightarrow> ks)
          in Inr (m\<lparr>keys := AList.update key streamKey (keys m),
                     streamerKeys := (streamerKeys m)(streamerID \<mapsto> old @ [key])\<rparr>,
                  streamKey))"

text \<open>The expiry test shared by validation and sweep:
  \<^verbatim>\<open>ExpiresAt != nil && now.After(*ExpiresAt)\<close>.\<close>

definition expired :: "time option \<Rightarrow> time \<Rightarrow> bool" where
  "expired expiresAt now = (case expiresAt of None \<Rightarrow> False | Some e \<Rightarrow> e < now)"

definition ValidateStreamKey :: "StreamKeyManager \<Rightarrow> string \<Rightarrow> time \<Rightarrow> skm_error + StreamKey" where
  "ValidateStreamKey m key now =
     (case map_of (keys m) key of
        None \<Rightarrow> Inl KeyNotFound
      | Some streamKey \<Rightarrow>
          if \<not> sk_IsActive streamKey then Inl KeyInactive
          else if expired (sk_ExpiresAt streamKey) now then Inl KeyExpired
          else Inr streamKey)"

definition MarkKeyAsUsed :: "StreamKeyManager \<Rightarrow> string \<Rightarrow> time \<Rightarrow> skm_error + StreamKeyManager" where
  "MarkKeyAsUsed m key now =
     (case map_of (keys m) key of
        None \<Rightarrow> Inl KeyNotFound
      | Some streamKey \<Rightarrow>
          Inr (m\<lparr>keys := AList.update key
                 (streamKey\<lparr>sk_UsageCount := sk_UsageCount streamKey + 1,
                             sk_LastUsedAt := Some now\<rparr>) (keys m)\<rparr>))"

definition RevokeStreamKey :: "StreamKeyManager \<Rightarrow> string \<Rightarrow> skm_error + StreamKeyManager" where
  "RevokeStreamKey m key =
     (case map_of (keys m) key of
        None \<Rightarrow> Inl KeyNotFound
      | Some streamKey \<Rightarrow>
          Inr (m\<lparr>keys := AList.update key (streamKey\<lparr>sk_IsActive := False\<rparr>) (keys m)\<rparr>))"

definition GetStreamKeysByStreamer :: "StreamKeyManager \<Rightarrow> string \<Rightarrow> StreamKey list" where
  "GetStreamKeysByStreamer m streamerID =
     (case streamerKeys m streamerID of
        None \<Rightarrow> []
      | Some keyIDs \<Rightarrow> List.map_filter (\<lambda>keyID. map_of (keys m) keyID) keyIDs)"

text \<open>The index clean-up of every delete and sweep: the first occurrence of the identifier
  is cut out of the streamer's list; a list without it is left as it is.\<close>

definition removeFromIndex :: "(string \<rightharpoonup> string list) \<Rightarrow> string \<Rightarrow> string \<Rightarrow> (string \<rightharpoonup> string list)" where
  "removeFromIndex idx streamerID key =
     (case idx streamerID of
        None \<Rightarrow> idx
      | Some ks \<Rightarrow> if key \<in> set ks then idx(streamerID \<mapsto> remove1 key ks) else idx)"

definition DeleteStreamKey :: "StreamKeyManager \<Rightarrow> string \<Rightarrow> skm_error + StreamKeyManager" where
  "DeleteStreamKey m key =
     (case map_of (keys m) key of
        None \<Rightarrow> Inl KeyNotFound
      | Some streamKey \<Rightarrow>
          Inr (m\<lparr>keys := AList.delete key (keys m),
                 streamerKeys := removeFromIndex (streamerKeys m) (sk_StreamerID streamKey) key\<rparr>))"

definition UpdateStreamKeyMetadata ::
  "StreamKeyManager \<Rightarrow> string \<Rightarrow> (string \<rightharpoonup> string) \<Rightarrow> skm_error + StreamKeyManager" where
  "UpdateStreamKeyMetadata m key metadata =
     (case map_of (keys m) key of
        None \<Rightarrow> Inl KeyNotFound
      | Some streamKey \<Rightarrow>
          Inr (m\<lparr>keys := AList.update key
                 (streamKey\<lparr>sk_Metadata := sk_Metadata streamKey ++ metadata\<rparr>) (keys m)\<rparr>))"

text \<open>\<^verbatim>\<open>CleanupExpiredKeys\<close> ranges over the entries of \<^verbatim>\<open>keys\<close>; an expired
  entry is deleted from the map and from its streamer's index and counted.\<close>

fun cleanupLoop :: "(string \<times> StreamKey) list \<Rightarrow> time \<Rightarrow> StreamKeyManager \<times> nat \<Rightarrow> StreamKeyManager \<times> nat" where
  "cleanupLoop [] now acc = acc"
| "cleanupLoop ((key, streamKey) # rest) now (m, count) =
     (if expired (sk_ExpiresAt streamKey) now
      then cleanupLoop rest now
             (m\<lparr>keys := AList.delete key (keys m),
                streamerKeys := removeFromIndex (streamerKeys m) (sk_StreamerID streamKey) key\<rparr>,
              count + 1)
      else cleanupLoop rest now (m, count))"

definition CleanupExpiredKeys :: "StreamKeyManager \<Rightarrow> time \<Rightarrow> StreamKeyManager \<times> nat" where
  "CleanupExpiredKeys m now = cleanupLoop (keys m) now (m, 0)"

definition GetActiveStreamCount :: "StreamKeyManager \<Rightarrow> time \<Rightarrow> nat" where
  "GetActiveStreamCount m now =
     length (filter (\<lambda>(k, key). sk_IsActive key \<and>
                (case sk_LastUsedAt key of None \<Rightarrow> False | Some t \<Rightarrow> now - t < 5 * Minute))
              (keys m))"

text \<open>
  The operations of the manager as one step function, for statements about every later
  operation. An operation that fails leaves the manager as it was; the read operations
  leave it unchanged.
\<close>

datatype skm_op =
    OpGenerate string string "StreamPermissions option" "duration option" "string option"
  | OpValidate string
  | OpMarkKeyAsUsed string
  | OpRevoke string
  | OpGetByStreamer string
  | OpDelete string
  | OpUpdateMetadata string "string \<rightharpoonup> string"
  | OpCleanup
  | OpGetActiveCount

fun skm_step :: "StreamKeyManager \<Rightarrow> time \<times> skm_op \<Rightarrow> StreamKeyManager" where
  "skm_step m (now, OpGenerate streamerID roomName permissions expiresIn rnd) =
     (case GenerateStreamKey m streamerID roomName permissions expiresIn rnd now of
        Inl e \<Rightarrow> m | Inr (m', sk) \<Rightarrow> m')"
| "skm_step m (now, OpValidate key) = m"
| "skm_step m (now, OpMarkKeyAsUsed key) =
     (case MarkKeyAsUsed m key now of Inl e \<Rightarrow> m | Inr m' \<Rightarrow> m')"
| "skm_step m (now, OpRevoke key) =
     (case RevokeStreamKey m key of Inl e \<Rightarrow> m | Inr m' \<Rightarrow> m')"
| "skm_step m (now, OpGetByStreamer streamerID) = m"
| "skm_step m (now, OpDelete key) =
     (case DeleteStreamKey m key of Inl e \<Rightarrow> m | Inr m' \<Rightarrow> m')"
| "skm_step m (now, OpUpdateMetadata key metadata) =
     (case UpdateStreamKeyMetadata m key metadata of Inl e \<Rightarrow> m | Inr m' \<Rightarrow> m')"
| "skm_step m (now, OpCleanup) = fst (CleanupExpiredKeys m now)"
| "skm_step m (now, OpGetActiveCount) = m"

definition skm_run :: "StreamKeyManager \<Rightarrow> (time \<times> skm_op) list \<Rightarrow> StreamKeyManager" where
  "skm_run m ops = foldl skm_step m ops"

text \<open>An operation draws the key \<open>k\<close> when it is a generation whose random source
  returns \<open>k\<close> itself.\<close>

fun draws :: "string \<Rightarrow> time \<times> skm_op \<Rightarrow> bool" where
  "draws k (now, OpGenerate streamerID roomName permissions expiresIn rnd) = (rnd = Some k)"
| "draws k (now, other) = False"

fun removes :: "string \<Rightarrow> time \<times> skm_op \<Rightarrow> bool" where
  "removes k (now, OpDelete key) = (key = k)"
| "removes k (now, OpCleanup) = True"
| "removes k (now, other) = False"

text \<open>A key is revoked in a manager when its entry is stored and inactive.\<close>

definition revoked :: "StreamKeyManager \<Rightarrow> string \<Rightarrow> bool" where
  "revoked m k = (case map_of (keys m) k of None \<Rightarrow> False | Some sk \<Rightarrow> \<not> sk_IsActive sk)"

section \<open>Formatting\<close>

text \<open>\<^verbatim>\<open>%d\<close> of \<^verbatim>\<open>fmt.Sprintf\<close>: the decimal digits of an integer, with a
  leading minus sign for a negative one.\<close>

definition digit :: "int \<Rightarrow> char" where
  "digit d =
     (if d = 0 then CHR ''0'' else if d = 1 then CHR ''1'' else if d = 2 then CHR ''2''
      else if d = 3 then CHR ''3'' else if d = 4 then CHR ''4'' else if d = 5 then CHR ''5''
      else if d = 6 then CHR ''6'' else if d = 7 then CHR ''7'' else if d = 8 then CHR ''8''
      else CHR ''9'')"

function decimal :: "int \<Rightarrow> string" where
  "decimal n =
     (if n < 10 then [digit n]
      else decimal (n div 10) @ [digit (n mod 10)])"
  by pat_completeness auto
termination
  by (relation "measure nat") auto

declare decimal.simps [simp del]

definition fmt_d :: "int \<Rightarrow> string" where
  "fmt_d i = (if i < 0 then CHR ''-'' # decimal (- i) else decimal i)"

section \<open>Analytics (AnalyticsService)\<close>

text \<open>
  The records carry the fields that the event operations read or write. The derived
  metrics and the time series, written only by \<^verbatim>\<open>calculateMetrics\<close> and by the
  sampling loop, are left out: those two never write a viewer counter or a session.
  A \<^verbatim>\<open>map[string]int\<close> counter reads 0 at a key it does not hold.
\<close>

record ViewerSession =
  vs_ViewerID :: string
  vs_RoomName :: string
  vs_JoinedAt :: time
  vs_LeftAt :: "time option"
  vs_WatchDuration :: duration
  vs_MessagesSent :: int
  vs_ReactionsSent :: int
  vs_Platform :: string
  vs_Device :: string
  vs_Country :: string
  vs_Region :: string
  vs_QualityLevel :: string

record StreamAnalytics =
  an_RoomName :: string
  an_StreamerID :: string
  an_StartTime :: time
  an_EndTime :: "time option"
  an_TotalViewers :: int
  an_PeakViewers :: int
  an_CurrentViewers :: int
  an_UniqueViewers :: int
  an_TotalMessages :: int
  an_TotalReactions :: int
  an_ReactionBreakdown :: "string \<rightharpoonup> int"
  an_PeakBitrate :: int
  an_ViewersByCountry :: "string \<rightharpoonup> int"
  an_ViewersByRegion :: "string \<rightharpoonup> int"
  an_ViewersByPlatform :: "string \<rightharpoonup> int"
  an_ViewersByDevice :: "string \<rightharpoonup> int"

text \<open>The session table of a room is keyed by viewer identity; the join operation
  ranges over it, so it is an association list.\<close>

record AnalyticsService =
  streamAnalytics :: "string \<rightharpoonup> StreamAnalytics"
  viewerSessions :: "string \<rightharpoonup> (string \<times> ViewerSession) list"

datatype an_error = AnalyticsAlreadyStarted | AnalyticsNotFound | NoSessionsFound | SessionNotFound

definition NewAnalyticsService :: AnalyticsService where
  "NewAnalyticsService = \<lparr>streamAnalytics = Map.empty, viewerSessions = Map.empty\<rparr>"

definition increment :: "('k \<rightharpoonup> int) \<Rightarrow> 'k \<Rightarrow> ('k \<rightharpoonup> int)" where
  "increment counts k = counts(k \<mapsto> (case counts k of None \<Rightarrow> 0 | Some n \<Rightarrow> n) + 1)"

definition StartStreamAnalytics ::
  "AnalyticsService \<Rightarrow> string \<Rightarrow> string \<Rightarrow> time \<Rightarrow> an_error + AnalyticsService" where
  "StartStreamAnalytics as roomName streamerID now =
     (case streamAnalytics as roomName of
        Some a \<Rightarrow> Inl AnalyticsAlreadyStarted
      | None \<Rightarrow>
          Inr (as\<lparr>streamAnalytics := (streamAnalytics as)(roomName \<mapsto>
                     \<lparr>an_RoomName = roomName, an_StreamerID = streamerID, an_StartTime = now,
                      an_EndTime = None, an_TotalViewers = 0, an_PeakViewers = 0,
                      an_CurrentViewers = 0, an_UniqueViewers = 0, an_TotalMessages = 0,
                      an_TotalReactions = 0, an_ReactionBreakdown = Map.empty,
                      an_PeakBitrate = 0, an_ViewersByCountry = Map.empty,
                      an_ViewersByRegion = Map.empty, an_ViewersByPlatform = Map.empty,
                      an_ViewersByDevice = Map.empty\<rparr>),
                  viewerSessions := (viewerSessions as)(roomName \<mapsto> [])\<rparr>))"

text \<open>The uniqueness loop of \<^verbatim>\<open>RecordViewerJoin\<close>: \<^verbatim>\<open>isUnique\<close> starts true and
  is cleared at the first session of the same viewer that has a \<^verbatim>\<open>LeftAt\<close>.\<close>

fun isUnique :: "(string \<times> ViewerSession) list \<Rightarrow> string \<Rightarrow> bool" where
  "isUnique [] viewerID = True"
| "isUnique ((k, session) # rest) viewerID =
     (if vs_ViewerID session = viewerID \<and> vs_LeftAt session \<noteq> None then False
      else isUnique rest viewerID)"

definition RecordViewerJoin ::
  "AnalyticsService \<Rightarrow> string \<Rightarrow> string \<Rightarrow> string \<Rightarrow> string \<Rightarrow> string \<Rightarrow> string \<Rightarrow> time
     \<Rightarrow> an_error + AnalyticsService" where
  "RecordViewerJoin as roomName viewerID platform device country region now =
     (case streamAnalytics as roomName of
        None \<Rightarrow> Inl AnalyticsNotFound
      | Some analytics \<Rightarrow>
          let sessions = (case viewerSessions as roomName of None \<Rightarrow> [] | Some s \<Rightarrow> s);
              unique = isUnique sessions viewerID;
              session = \<lparr>vs_ViewerID = viewerID, vs_RoomName = roomName, vs_JoinedAt = now,
                         vs_LeftAt = None, vs_WatchDuration = 0, vs_MessagesSent = 0,
                         vs_ReactionsSent = 0, vs_Platform = platform, vs_Device = device,
                         vs_Country = country, vs_Region = region, vs_QualityLevel = ''auto''\<rparr>;
              current = an_CurrentViewers analytics + 1;
              analytics' = analytics
                \<lparr>an_CurrentViewers := current,
                 an_TotalViewers := an_TotalViewers analytics + 1,
                 an_UniqueViewers :=
                   (if unique then an_UniqueViewers analytics + 1 else an_UniqueViewers analytics),
                 an_PeakViewers :=
                   (if current > an_PeakViewers analytics then current else an_PeakViewers analytics),
                 an_ViewersByCountry :=
                   (if country \<noteq> [] then increment (an_ViewersByCountry analytics) country
                    else an_ViewersByCountry analytics),
                 an_ViewersByRegion :=
                   (if region \<noteq> [] then increment (an_ViewersByRegion analytics) region
                    else an_ViewersByRegion analytics),
                 an_ViewersByPlatform :=
                   (if platform \<noteq> [] then increment (an_ViewersByPlatform analytics) platform
                    else an_ViewersByPlatform analytics),
                 an_ViewersByDevice :=
                   (if device \<noteq> [] then increment (an_ViewersByDevice analytics) device
                    else an_ViewersByDevice analytics)\<rparr>
          in Inr (as\<lparr>streamAnalytics := (streamAnalytics as)(roomName \<mapsto> analytics'),
                     viewerSessions := (viewerSessions as)(roomName \<mapsto>
                        AList.update viewerID session sessions)\<rparr>))"

definition RecordViewerLeave ::
  "AnalyticsService \<Rightarrow> string \<Rightarrow> string \<Rightarrow> time \<Rightarrow> an_error + AnalyticsService" where
  "RecordViewerLeave as roomName viewerID now =
     (case streamAnalytics as roomName of
        None \<Rightarrow> Inl AnalyticsNotFound
      | Some analytics \<Rightarrow>
          (case viewerSessions as roomName of
             None \<Rightarrow> Inl NoSessionsFound
           | Some sessions \<Rightarrow>
               (case map_of sessions viewerID of
                  None \<Rightarrow> Inl SessionNotFound
                | Some session \<Rightarrow>
                    let session' = session\<lparr>vs_LeftAt := Some now,
                                           vs_WatchDuration := now - vs_JoinedAt session\<rparr>;
                        current = an_CurrentViewers analytics - 1;
                        analytics' = analytics
                          \<lparr>an_CurrentViewers := (if current < 0 then 0 else current)\<rparr>
                    in Inr (as\<lparr>streamAnalytics := (streamAnalytics as)(roomName \<mapsto> analytics'),
                               viewerSessions := (viewerSessions as)(roomName \<mapsto>
                                  AList.update viewerID session' sessions)\<rparr>))))"

text \<open>A sequence of viewer events on one room, each at its instant; the run stops at
  the first event that fails. A join carries no platform, device, country or region.\<close>

datatype viewer_event = viewer_join string | viewer_leave string

fun viewer_events ::
  "an_error + AnalyticsService \<Rightarrow> string \<Rightarrow> (time \<times> viewer_event) list \<Rightarrow> an_error + AnalyticsService" where
  "viewer_events (Inl e) roomName evs = Inl e"
| "viewer_events (Inr as) roomName [] = Inr as"
| "viewer_events (Inr as) roomName ((now, viewer_join v) # evs) =
     viewer_events (RecordViewerJoin as roomName v [] [] [] [] now) roomName evs"
| "viewer_events (Inr as) roomName ((now, viewer_leave v) # evs) =
     viewer_events (RecordViewerLeave as roomName v now) roomName evs"

text \<open>The four viewer counters of a room: total, unique, current, peak.\<close>

definition viewer_counts :: "an_error + AnalyticsService \<Rightarrow> string \<Rightarrow> (int \<times> int \<times> int \<times> int) option" where
  "viewer_counts res roomName =
     (case res of
        Inl e \<Rightarrow> None
      | Inr as \<Rightarrow>
          (case streamAnalytics as roomName of
             None \<Rightarrow> None
           | Some a \<Rightarrow> Some (an_TotalViewers a, an_UniqueViewers a,
                             an_CurrentViewers a, an_PeakViewers a)))"

section \<open>Reactions (pkg/streaming/reactions.go)\<close>

text \<open>
  A reaction type is a string in the source, and any string is accepted. The screen
  position of a reaction is a pair of floating-point numbers that the service only
  stores; it is kept as an opaque value. The leaderboard (\<^verbatim>\<open>TopReactors\<close>,
  rebuilt by \<^verbatim>\<open>updateTopReactors\<close> from \<^verbatim>\<open>UserReactions\<close> alone) is not part of
  the model: nothing reads it back.
\<close>

typedecl ReactionPosition

record Reaction =
  rx_ID :: string
  rx_RoomName :: string
  rx_UserID :: string
  rx_UserName :: string
  rx_Type :: string
  rx_Timestamp :: time
  rx_Position :: "ReactionPosition option"

record ReactionStats =
  st_TotalReactions :: int
  st_ReactionCounts :: "string \<rightharpoonup> int"
  st_RecentReactions :: "Reaction list"
  st_LastUpdated :: time

record RateLimit =
  rl_LastReaction :: time
  rl_Count :: int
  rl_WindowStart :: time

record ReactionRoom =
  rr_RoomName :: string
  rr_Reactions :: "Reaction list"
  rr_Stats :: ReactionStats
  rr_UserReactions :: "string \<rightharpoonup> Reaction list"
  rr_RateLimits :: "string \<rightharpoonup> RateLimit"
  rr_CreatedAt :: time

record ReactionConfig =
  MaxReactionsPerMinute :: int
  MaxReactionsPerSecond :: int
  ReactionTTL :: duration
  EnableRateLimit :: bool
  EnableAnimation :: bool
  MaxRecentReactions :: int
  EnableLeaderboard :: bool

record ReactionService =
  rs_rooms :: "string \<rightharpoonup> ReactionRoom"
  rs_config :: ReactionConfig

text \<open>Besides the two rate-limit errors, the two run-time panics the code can raise:
  the integer division by a zero \<^verbatim>\<open>MaxReactionsPerSecond\<close>, and the slice
  \<^verbatim>\<open>RecentReactions[:MaxRecentReactions]\<close> with a negative bound.\<close>

datatype rx_error = TooManyPerSecond | TooManyPerMinute | PanicDivideByZero | PanicSliceBounds

definition defaultReactionConfig :: ReactionConfig where
  "defaultReactionConfig =
     \<lparr>MaxReactionsPerMinute = 60, MaxReactionsPerSecond = 3, ReactionTTL = 5 * Minute,
      EnableRateLimit = True, EnableAnimation = True, MaxRecentReactions = 100,
      EnableLeaderboard = True\<rparr>"

definition NewReactionService :: "ReactionConfig option \<Rightarrow> ReactionService" where
  "NewReactionService config =
     \<lparr>rs_rooms = Map.empty,
      rs_config = (case config of None \<Rightarrow> defaultReactionConfig | Some c \<Rightarrow> c)\<rparr>"

definition newReactionRoom :: "string \<Rightarrow> time \<Rightarrow> ReactionRoom" where
  "newReactionRoom roomName now =
     \<lparr>rr_RoomName = roomName, rr_Reactions = [],
      rr_Stats = \<lparr>st_TotalReactions = 0, st_ReactionCounts = Map.empty,
                  st_RecentReactions = [], st_LastUpdated = now\<rparr>,
      rr_UserReactions = Map.empty, rr_RateLimits = Map.empty, rr_CreatedAt = now\<rparr>"

text \<open>\<^verbatim>\<open>checkRateLimit\<close>: \<open>None\<close> is the \<^verbatim>\<open>nil\<close> error. The quotient
  \<^verbatim>\<open>time.Second / time.Duration(MaxReactionsPerSecond)\<close> is Go's integer division,
  which truncates towards zero and panics on a zero divisor.\<close>

definition checkRateLimit :: "ReactionConfig \<Rightarrow> ReactionRoom \<Rightarrow> string \<Rightarrow> time \<Rightarrow> rx_error option" where
  "checkRateLimit config room userID now =
     (case rr_RateLimits room userID of
        None \<Rightarrow> None
      | Some rateLimit \<Rightarrow>
          if MaxReactionsPerSecond config = 0 then Some PanicDivideByZero
          else if now - rl_LastReaction rateLimit < Second sdiv MaxReactionsPerSecond config
          then Some TooManyPerSecond
          else if now - rl_WindowStart rateLimit < Minute
                  \<and> rl_Count rateLimit \<ge> MaxReactionsPerMinute config
          then Some TooManyPerMinute
          else None)"

definition updateRateLimit :: "ReactionRoom \<Rightarrow> string \<Rightarrow> time \<Rightarrow> ReactionRoom" where
  "updateRateLimit room userID now =
     (let rateLimit = (case rr_RateLimits room userID of
                         None \<Rightarrow> \<lparr>rl_LastReaction = 0, rl_Count = 0, rl_WindowStart = now\<rparr>
                       | Some rl \<Rightarrow> rl);
          rateLimit = (if now - rl_WindowStart rateLimit \<ge> Minute
                       then rateLimit\<lparr>rl_WindowStart := now, rl_Count := 0\<rparr>
                       else rateLimit)
      in room\<lparr>rr_RateLimits := (rr_RateLimits room)(userID \<mapsto>
                 rateLimit\<lparr>rl_LastReaction := now, rl_Count := rl_Count rateLimit + 1\<rparr>)\<rparr>)"

text \<open>
  \<^verbatim>\<open>SendReaction\<close> returns the service as the call leaves it together with the
  result. A room that does not exist is created before the rate limit is checked, so
  it stays when the call fails; the slice panic strikes after the reaction has been
  appended and before the rate-limit counter is advanced.
\<close>

definition SendReaction ::
  "ReactionService \<Rightarrow> string \<Rightarrow> string \<Rightarrow> string \<Rightarrow> string \<Rightarrow> ReactionPosition option \<Rightarrow> time
     \<Rightarrow> ReactionService \<times> (rx_error + Reaction)" where
  "SendReaction rs roomName userID userName reactionType position now =
     (let room = (case rs_rooms rs roomName of
                    None \<Rightarrow> newReactionRoom roomName now
                  | Some r \<Rightarrow> r);
          rs1 = rs\<lparr>rs_rooms := (rs_rooms rs)(roomName \<mapsto> room)\<rparr>;
          limited = (if EnableRateLimit (rs_config rs)
                     then checkRateLimit (rs_config rs) room userID now else None)
      in case limited of
           Some err \<Rightarrow> (rs1, Inl err)
         | None \<Rightarrow>
             let reaction = \<lparr>rx_ID = ''reaction-'' @ fmt_d now @ ''-'' @ userID,
                             rx_RoomName = roomName, rx_UserID = userID, rx_UserName = userName,
                             rx_Type = reactionType, rx_Timestamp = now, rx_Position = position\<rparr>;
                 mine = (case rr_UserReactions room userID of None \<Rightarrow> [] | Some xs \<Rightarrow> xs);
                 stats = rr_Stats room;
                 recent = reaction # st_RecentReactions stats;
                 room1 = room\<lparr>rr_Reactions := rr_Reactions room @ [reaction],
                              rr_UserReactions := (rr_UserReactions room)(userID \<mapsto> mine @ [reaction]),
                              rr_Stats := stats\<lparr>st_TotalReactions := st_TotalReactions stats + 1,
                                               st_ReactionCounts := increment (st_ReactionCounts stats) reactionType,
                                               st_RecentReactions := recent\<rparr>\<rparr>
             in if int (length recent) > MaxRecentReactions (rs_config rs)
                   \<and> MaxRecentReactions (rs_config rs) < 0
                then (rs\<lparr>rs_rooms := (rs_rooms rs)(roomName \<mapsto> room1)\<rparr>, Inl PanicSliceBounds)
                else
                  let recent' = (if int (length recent) > MaxRecentReactions (rs_config rs)
                                 then take (nat (MaxRecentReactions (rs_config rs))) recent
                                 else recent);
                      room2 = room1\<lparr>rr_Stats := (rr_Stats room1)
                                 \<lparr>st_RecentReactions := recent', st_LastUpdated := now\<rparr>\<rparr>;
                      room3 = updateRateLimit room2 userID now
                  in (rs\<lparr>rs_rooms := (rs_rooms rs)(roomName \<mapsto> room3)\<rparr>, Inr reaction))"

text \<open>A run of \<^verbatim>\<open>SendReaction\<close> calls by one identity to one room, one call at
  each instant of the list, with the results collected in order.\<close>

fun reaction_run ::
  "ReactionService \<Rightarrow> string \<Rightarrow> string \<Rightarrow> string \<Rightarrow> string \<Rightarrow> time list
     \<Rightarrow> ReactionService \<times> (rx_error + Reaction) list" where
  "reaction_run rs roomName userID userName reactionType [] = (rs, [])"
| "reaction_run rs roomName userID userName reactionType (now # rest) =
     (let (rs1, res) = SendReaction rs roomName userID userName reactionType None now;
          (rs2, ress) = reaction_run rs1 roomName userID userName reactionType rest
      in (rs2, res # ress))"

text \<open>Whether the identity has a rate-limit counter in the room.\<close>

definition rateLimitOf :: "ReactionService \<Rightarrow> string \<Rightarrow> string \<Rightarrow> RateLimit option" where
  "rateLimitOf rs roomName userID =
     (case rs_rooms rs roomName of None \<Rightarrow> None | Some room \<Rightarrow> rr_RateLimits room userID)"

section \<open>Chat (ChatService)\<close>

text \<open>
  A message type is a string in the source. \<^verbatim>\<open>Moderators\<close> is a
  \<^verbatim>\<open>map[identity]bool\<close> that only ever stores \<^verbatim>\<open>true\<close>: a set. The message
  handlers run on detached goroutines and write nothing back; they are not modelled.
\<close>

record ChatMessage =
  msg_ID :: string
  msg_RoomName :: string
  msg_SenderID :: string
  msg_SenderName :: string
  msg_Content :: string
  msg_Timestamp :: time
  msg_MessageType :: string
  msg_MentionedUsers :: "string list"
  msg_IsDeleted :: bool
  msg_IsModerated :: bool
  msg_ReplyTo :: "string option"

record ChatParticipant =
  cp_Identity :: string
  cp_Name :: string
  cp_IsModerator :: bool
  cp_IsMuted :: bool
  cp_JoinedAt :: time
  cp_MessageCount :: int

record ChatRoomSettings =
  set_MaxMessageLength :: int
  set_MaxMessagesPerMin :: int
  set_EnableEmojis :: bool
  set_EnableMentions :: bool
  set_EnableModeration :: bool
  set_SlowModeDelay :: duration
  set_RequireVerification :: bool
  set_EnableBadWords :: bool

record ChatRoom =
  room_RoomName :: string
  room_Messages :: "ChatMessage list"
  room_Participants :: "string \<rightharpoonup> ChatParticipant"
  room_Moderators :: "string set"
  room_BannedUsers :: "string \<rightharpoonup> time"
  room_CreatedAt :: time
  room_Settings :: ChatRoomSettings

record ChatService =
  cs_rooms :: "string \<rightharpoonup> ChatRoom"
  cs_badWords :: "string list"

datatype chat_error =
    RoomAlreadyExists | RoomNotFound | UserBanned time | ParticipantNotInRoom
  | ParticipantMuted | MessageTooLong | RateLimitExceeded | SlowModeActive
  | NotModerator | MessageNotFound | ParticipantNotFound

definition NewChatService :: ChatService where
  "NewChatService = \<lparr>cs_rooms = Map.empty, cs_badWords = [''spam'', ''badword1'', ''badword2'']\<rparr>"

definition defaultChatRoomSettings :: ChatRoomSettings where
  "defaultChatRoomSettings =
     \<lparr>set_MaxMessageLength = 500, set_MaxMessagesPerMin = 20, set_EnableEmojis = True,
      set_EnableMentions = True, set_EnableModeration = True, set_SlowModeDelay = 0,
      set_RequireVerification = False, set_EnableBadWords = True\<rparr>"

definition CreateChatRoom ::
  "ChatService \<Rightarrow> string \<Rightarrow> ChatRoomSettings option \<Rightarrow> time \<Rightarrow> chat_error + ChatService" where
  "CreateChatRoom cs roomName settings now =
     (case cs_rooms cs roomName of
        Some r \<Rightarrow> Inl RoomAlreadyExists
      | None \<Rightarrow>
          Inr (cs\<lparr>cs_rooms := (cs_rooms cs)(roomName \<mapsto>
                 \<lparr>room_RoomName = roomName, room_Messages = [], room_Participants = Map.empty,
                  room_Moderators = {}, room_BannedUsers = Map.empty, room_CreatedAt = now,
                  room_Settings = (case settings of None \<Rightarrow> defaultChatRoomSettings
                                                  | Some st \<Rightarrow> st)\<rparr>)\<rparr>))"

definition systemMessage :: "string \<Rightarrow> string \<Rightarrow> time \<Rightarrow> ChatMessage" where
  "systemMessage roomName content now =
     \<lparr>msg_ID = ''sys-'' @ fmt_d now, msg_RoomName = roomName, msg_SenderID = ''system'',
      msg_SenderName = ''System'', msg_Content = content, msg_Timestamp = now,
      msg_MessageType = ''join_leave'', msg_MentionedUsers = [], msg_IsDeleted = False,
      msg_IsModerated = False, msg_ReplyTo = None\<rparr>"

text \<open>The ban test of \<^verbatim>\<open>JoinChatRoom\<close>: the expiry of a ban that still holds.\<close>

definition stillBanned :: "ChatRoom \<Rightarrow> string \<Rightarrow> time \<Rightarrow> time option" where
  "stillBanned room participantID now =
     (case room_BannedUsers room participantID of
        None \<Rightarrow> None
      | Some banExpiry \<Rightarrow> if now < banExpiry then Some banExpiry else None)"

definition JoinChatRoom ::
  "ChatService \<Rightarrow> string \<Rightarrow> string \<Rightarrow> string \<Rightarrow> bool \<Rightarrow> time \<Rightarrow> chat_error + ChatService" where
  "JoinChatRoom cs roomName participantID participantName isModerator now =
     (case cs_rooms cs roomName of
        None \<Rightarrow> Inl RoomNotFound
      | Some room \<Rightarrow>
          (case stillBanned room participantID now of
             Some banExpiry \<Rightarrow> Inl (UserBanned banExpiry)
           | None \<Rightarrow>
               let participant = \<lparr>cp_Identity = participantID, cp_Name = participantName,
                                  cp_IsModerator = isModerator, cp_IsMuted = False,
                                  cp_JoinedAt = now, cp_MessageCount = 0\<rparr>;
                   room' = room
                     \<lparr>room_BannedUsers := (room_BannedUsers room)(participantID := None),
                      room_Participants := (room_Participants room)(participantID \<mapsto> participant),
                      room_Moderators := (if isModerator then insert participantID (room_Moderators room)
                                          else room_Moderators room),
                      room_Messages := room_Messages room @
                         [systemMessage roomName (participantName @ '' joined the chat'') now]\<rparr>
               in Inr (cs\<lparr>cs_rooms := (cs_rooms cs)(roomName \<mapsto> room')\<rparr>)))"

definition LeaveChatRoom :: "ChatService \<Rightarrow> string \<Rightarrow> string \<Rightarrow> time \<Rightarrow> chat_error + ChatService" where
  "LeaveChatRoom cs roomName participantID now =
     (case cs_rooms cs roomName of
        None \<Rightarrow> Inl RoomNotFound
      | Some room \<Rightarrow>
          (case room_Participants room participantID of
             None \<Rightarrow> Inl ParticipantNotInRoom
           | Some participant \<Rightarrow>
               let room' = room
                     \<lparr>room_Participants := (room_Participants room)(participantID := None),
                      room_Moderators := room_Moderators room - {participantID},
                      room_Messages := room_Messages room @
                         [systemMessage roomName (cp_Name participant @ '' left the chat'') now]\<rparr>
               in Inr (cs\<lparr>cs_rooms := (cs_rooms cs)(roomName \<mapsto> room')\<rparr>)))"

text \<open>\<^verbatim>\<open>countRecentMessages\<close> walks the log from its newest message backwards and
  stops at the first message older than the cutoff; the first argument of the loop is
  the log, newest first.\<close>

fun countRecentLoop :: "ChatMessage list \<Rightarrow> string \<Rightarrow> time \<Rightarrow> nat \<Rightarrow> nat" where
  "countRecentLoop [] senderID cutoff count = count"
| "countRecentLoop (msg # older) senderID cutoff count =
     (if msg_Timestamp msg < cutoff then count
      else countRecentLoop older senderID cutoff
             (if msg_SenderID msg = senderID then count + 1 else count))"

definition countRecentMessages :: "ChatRoom \<Rightarrow> string \<Rightarrow> duration \<Rightarrow> time \<Rightarrow> nat" where
  "countRecentMessages room senderID d now =
     countRecentLoop (rev (room_Messages room)) senderID (now - d) 0"

fun getLastLoop :: "ChatMessage list \<Rightarrow> string \<Rightarrow> ChatMessage option" where
  "getLastLoop [] senderID = None"
| "getLastLoop (msg # older) senderID =
     (if msg_SenderID msg = senderID then Some msg else getLastLoop older senderID)"

definition getLastMessage :: "ChatRoom \<Rightarrow> string \<Rightarrow> ChatMessage option" where
  "getLastMessage room senderID = getLastLoop (rev (room_Messages room)) senderID"

text \<open>\<^verbatim>\<open>replaceWord\<close> returns its first argument; \<^verbatim>\<open>filterBadWords\<close> applies
  it once for every configured word.\<close>

definition replaceWord :: "string \<Rightarrow> string \<Rightarrow> string" where
  "replaceWord content word = content"

definition filterBadWords :: "ChatService \<Rightarrow> string \<Rightarrow> string" where
  "filterBadWords cs content = foldl replaceWord content (cs_badWords cs)"

text \<open>
  \<^verbatim>\<open>SendMessage\<close> returns the service as the call leaves it together with the
  result: a sender unknown to the room is registered before any check, and stays
  registered when a check fails. \<^verbatim>\<open>len(content)\<close> counts bytes, as \<open>length\<close>
  does on a \<open>string\<close>.
\<close>

definition SendMessage ::
  "ChatService \<Rightarrow> string \<Rightarrow> string \<Rightarrow> string \<Rightarrow> string \<Rightarrow> string list \<Rightarrow> string option \<Rightarrow> time
     \<Rightarrow> ChatService \<times> (chat_error + ChatMessage)" where
  "SendMessage cs roomName senderID content messageType mentionedUsers replyTo now =
     (case cs_rooms cs roomName of
        None \<Rightarrow> (cs, Inl RoomNotFound)
      | Some room \<Rightarrow>
          let participant = (case room_Participants room senderID of
                               None \<Rightarrow> \<lparr>cp_Identity = senderID, cp_Name = senderID,
                                        cp_IsModerator = False, cp_IsMuted = False,
                                        cp_JoinedAt = now, cp_MessageCount = 0\<rparr>
                             | Some p \<Rightarrow> p);
              room1 = room\<lparr>room_Participants := (room_Participants room)(senderID \<mapsto> participant)\<rparr>;
              cs1 = cs\<lparr>cs_rooms := (cs_rooms cs)(roomName \<mapsto> room1)\<rparr>;
              settings = room_Settings room
          in if cp_IsMuted participant then (cs1, Inl ParticipantMuted)
             else if int (length content) > set_MaxMessageLength settings
             then (cs1, Inl MessageTooLong)
             else if int (countRecentMessages room1 senderID Minute now) \<ge> set_MaxMessagesPerMin settings
             then (cs1, Inl RateLimitExceeded)
             else if set_SlowModeDelay settings > 0 \<and>
                     (case getLastMessage room1 senderID of
                        None \<Rightarrow> False
                      | Some lastMsg \<Rightarrow> now - msg_Timestamp lastMsg < set_SlowModeDelay settings)
             then (cs1, Inl SlowModeActive)
             else
               let content' = (if set_EnableBadWords settings then filterBadWords cs content
                               else content);
                   message = \<lparr>msg_ID = ''msg-'' @ fmt_d now @ ''-'' @ senderID,
                              msg_RoomName = roomName, msg_SenderID = senderID,
                              msg_SenderName = cp_Name participant, msg_Content = content',
                              msg_Timestamp = now, msg_MessageType = messageType,
                              msg_MentionedUsers = mentionedUsers, msg_IsDeleted = False,
                              msg_IsModerated = False, msg_ReplyTo = replyTo\<rparr>;
                   room2 = room1
                     \<lparr>room_Messages := room_Messages room1 @ [message],
                      room_Participants := (room_Participants room1)(senderID \<mapsto>
                         participant\<lparr>cp_MessageCount := cp_MessageCount participant + 1\<rparr>)\<rparr>
               in (cs\<lparr>cs_rooms := (cs_rooms cs)(roomName \<mapsto> room2)\<rparr>, Inr message))"

text \<open>\<^verbatim>\<open>DeleteMessage\<close> flags the first message with the given identifier.\<close>

fun markDeleted :: "ChatMessage list \<Rightarrow> string \<Rightarrow> ChatMessage list option" where
  "markDeleted [] messageID = None"
| "markDeleted (msg # rest) messageID =
     (if msg_ID msg = messageID
      then Some (msg\<lparr>msg_IsDeleted := True, msg_IsModerated := True\<rparr> # rest)
      else map_option ((#) msg) (markDeleted rest messageID))"

definition DeleteMessage :: "ChatService \<Rightarrow> string \<Rightarrow> string \<Rightarrow> string \<Rightarrow> chat_error + ChatService" where
  "DeleteMessage cs roomName messageID moderatorID =
     (case cs_rooms cs roomName of
        None \<Rightarrow> Inl RoomNotFound
      | Some room \<Rightarrow>
          if moderatorID \<notin> room_Moderators room then Inl NotModerator
          else (case markDeleted (room_Messages room) messageID of
                  None \<Rightarrow> Inl MessageNotFound
                | Some msgs \<Rightarrow>
                    Inr (cs\<lparr>cs_rooms := (cs_rooms cs)(roomName \<mapsto> room\<lparr>room_Messages := msgs\<rparr>)\<rparr>)))"

text \<open>
  \<^verbatim>\<open>MuteParticipant\<close> sets the flag; with a positive duration it also starts a
  goroutine that sleeps for the duration and then runs \<open>unmuteTimer\<close>, which is a
  step of its own here.
\<close>

definition MuteParticipant ::
  "ChatService \<Rightarrow> string \<Rightarrow> string \<Rightarrow> string \<Rightarrow> duration \<Rightarrow> chat_error + ChatService" where
  "MuteParticipant cs roomName participantID moderatorID d =
     (case cs_rooms cs roomName of
        None \<Rightarrow> Inl RoomNotFound
      | Some room \<Rightarrow>
          if moderatorID \<notin> room_Moderators room then Inl NotModerator
          else (case room_Participants room participantID of
                  None \<Rightarrow> Inl ParticipantNotFound
                | Some participant \<Rightarrow>
                    Inr (cs\<lparr>cs_rooms := (cs_rooms cs)(roomName \<mapsto>
                           room\<lparr>room_Participants := (room_Participants room)(participantID \<mapsto>
                                   participant\<lparr>cp_IsMuted := True\<rparr>)\<rparr>)\<rparr>)))"

definition unmuteTimer :: "ChatService \<Rightarrow> string \<Rightarrow> string \<Rightarrow> ChatService" where
  "unmuteTimer cs roomName participantID =
     (case cs_rooms cs roomName of
        None \<Rightarrow> cs
      | Some room \<Rightarrow>
          (case room_Participants room participantID of
             None \<Rightarrow> cs
           | Some p \<Rightarrow>
               cs\<lparr>cs_rooms := (cs_rooms cs)(roomName \<mapsto>
                    room\<lparr>room_Participants := (room_Participants room)(participantID \<mapsto>
                            p\<lparr>cp_IsMuted := False\<rparr>)\<rparr>)\<rparr>))"

definition BanParticipant ::
  "ChatService \<Rightarrow> string \<Rightarrow> string \<Rightarrow> string \<Rightarrow> duration \<Rightarrow> time \<Rightarrow> chat_error + ChatService" where
  "BanParticipant cs roomName participantID moderatorID d now =
     (case cs_rooms cs roomName of
        None \<Rightarrow> Inl RoomNotFound
      | Some room \<Rightarrow>
          if moderatorID \<notin> room_Moderators room then Inl NotModerator
          else Inr (cs\<lparr>cs_rooms := (cs_rooms cs)(roomName \<mapsto>
                      room\<lparr>room_BannedUsers := (room_BannedUsers room)(participantID \<mapsto> now + d),
                           room_Participants := (room_Participants room)(participantID := None)\<rparr>)\<rparr>))"

text \<open>The log of a room (empty for a room that does not exist), and whether a sender is
  a participant with the mute flag set.\<close>

definition log_of :: "ChatService \<Rightarrow> string \<Rightarrow> ChatMessage list" where
  "log_of cs roomName = (case cs_rooms cs roomName of None \<Rightarrow> [] | Some room \<Rightarrow> room_Messages room)"

definition isMuted :: "ChatRoom \<Rightarrow> string \<Rightarrow> bool" where
  "isMuted room senderID =
     (case room_Participants room senderID of None \<Rightarrow> False | Some p \<Rightarrow> cp_IsMuted p)"

text \<open>A run of sends by one sender to one room, each with its instant and content, as
  plain text without mentions; the results are collected in order.\<close>

fun send_run ::
  "ChatService \<Rightarrow> string \<Rightarrow> string \<Rightarrow> (time \<times> string) list
     \<Rightarrow> ChatService \<times> (chat_error + ChatMessage) list" where
  "send_run cs roomName senderID [] = (cs, [])"
| "send_run cs roomName senderID ((now, content) # rest) =
     (let (cs1, res) = SendMessage cs roomName senderID content ''text'' [] None now;
          (cs2, ress) = send_run cs1 roomName senderID rest
      in (cs2, res # ress))"

section \<open>Double-precision arithmetic of the completion test\<close>

text \<open>
  \<^verbatim>\<open>UpdatePlaybackSession\<close> compares \<^verbatim>\<open>float64(position)\<close> with
  \<^verbatim>\<open>float64(recording.Duration)*0.95\<close>. Both conversions and the product round to
  the nearest double, ties to even; for 64-bit integers nothing overflows and nothing is
  subnormal, so each result is fixed by its 53 significant bits. The constant
  \<^verbatim>\<open>0.95\<close> is the double \<open>8556839292003942 / 2 ^ 53\<close>. The values are kept as
  integers: \<open>float64 n\<close> is the value of the conversion, \<open>mul95 x\<close> is \<open>2 ^ 53\<close>
  times the value of the product.
\<close>

function bitLen :: "int \<Rightarrow> nat" where
  "bitLen n = (if n \<le> 0 then 0 else Suc (bitLen (n div 2)))"
  by pat_completeness auto
termination
  by (relation "measure nat") auto

declare bitLen.simps [simp del]

text \<open>\<open>n / 2 ^ k\<close> rounded to the nearest integer, a tie going to the even one.\<close>

definition roundShift :: "int \<Rightarrow> nat \<Rightarrow> int" where
  "roundShift n k =
     (let q = n div 2 ^ k; r = n mod 2 ^ k
      in if 2 * r < 2 ^ k then q
         else if 2 * r > 2 ^ k then q + 1
         else if even q then q else q + 1)"

text \<open>The nearest integer with at most 53 significant bits, for \<open>n \<ge> 0\<close>.\<close>

definition round53 :: "int \<Rightarrow> int" where
  "round53 n = (let k = bitLen n - 53 in roundShift n k * 2 ^ k)"

definition float64 :: "int \<Rightarrow> int" where
  "float64 n = (if n < 0 then - round53 (- n) else round53 n)"

definition mul95 :: "int \<Rightarrow> int" where
  "mul95 x = (if x < 0 then - round53 (- x * 8556839292003942)
              else round53 (x * 8556839292003942))"

definition reached95 :: "duration \<Rightarrow> duration \<Rightarrow> bool" where
  "reached95 position d = (float64 position * 2 ^ 53 \<ge> mul95 (float64 d))"

section \<open>Recordings and playback (VODService)\<close>

datatype VODStatus =
    VODStatusRecording | VODStatusProcessing | VODStatusReady
  | VODStatusFailed | VODStatusArchived | VODStatusDeleted

record VODRecording =
  vod_ID :: string
  vod_RoomName :: string
  vod_StreamerID :: string
  vod_StreamerName :: string
  vod_Title :: string
  vod_Description :: string
  vod_ThumbnailURL :: string
  vod_VideoURL :: string
  vod_FileSize :: int
  vod_Duration :: duration
  vod_Status :: VODStatus
  vod_ViewCount :: int
  vod_RecordedAt :: time
  vod_PublishedAt :: "time option"
  vod_ExpiresAt :: "time option"
  vod_IsPublic :: bool
  vod_Tags :: "string list"
  vod_Category :: string
  vod_Metadata :: "string \<rightharpoonup> string"

record VODPlaybackSession =
  ps_ID :: string
  ps_RecordingID :: string
  ps_UserID :: string
  ps_StartedAt :: time
  ps_LastHeartbeat :: time
  ps_CurrentPosition :: duration
  ps_WatchDuration :: duration
  ps_Completed :: bool
  ps_Quality :: string

record VODConfig =
  StoragePath :: string
  MaxRecordingSize :: int
  DefaultRetentionDays :: int
  AutoPublish :: bool
  GenerateThumbnails :: bool
  EnableTranscoding :: bool
  TranscodingQualities :: "string list"
  SessionTimeout :: duration
  EnableAnalytics :: bool

record VODService =
  recordings :: "string \<rightharpoonup> VODRecording"
  streamerRecordings :: "string \<rightharpoonup> string list"
  playbackSessions :: "string \<rightharpoonup> VODPlaybackSession"
  vod_config :: VODConfig

datatype vod_error =
    RecordingNotFound | NotInRecordingStatus | RecordingNotReady | RecordingNotPublic
  | PlaybackSessionNotFound

definition defaultVODConfig :: VODConfig where
  "defaultVODConfig =
     \<lparr>StoragePath = ''/var/livekit/recordings'', MaxRecordingSize = 10 * 1024 * 1024 * 1024,
      DefaultRetentionDays = 30, AutoPublish = False, GenerateThumbnails = True,
      EnableTranscoding = True, TranscodingQualities = [''1080p'', ''720p'', ''480p'', ''360p''],
      SessionTimeout = 5 * Minute, EnableAnalytics = True\<rparr>"

definition NewVODService :: "VODConfig option \<Rightarrow> VODService" where
  "NewVODService config =
     \<lparr>recordings = Map.empty, streamerRecordings = Map.empty, playbackSessions = Map.empty,
      vod_config = (case config of None \<Rightarrow> defaultVODConfig | Some c \<Rightarrow> c)\<rparr>"

text \<open>\<^verbatim>\<open>AddDate(0, 0, days)\<close>, with a calendar day counted as 24 hours.\<close>

definition addDays :: "time \<Rightarrow> int \<Rightarrow> time" where
  "addDays t days = t + days * (24 * 60 * Minute)"

definition StartRecording ::
  "VODService \<Rightarrow> string \<Rightarrow> string \<Rightarrow> string \<Rightarrow> string \<Rightarrow> time \<Rightarrow> VODService \<times> VODRecording" where
  "StartRecording vs roomName streamerID streamerName title now =
     (let recordingID = ''rec-'' @ fmt_d now @ ''-'' @ streamerID;
          recording = \<lparr>vod_ID = recordingID, vod_RoomName = roomName, vod_StreamerID = streamerID,
                       vod_StreamerName = streamerName, vod_Title = title, vod_Description = [],
                       vod_ThumbnailURL = [], vod_VideoURL = [], vod_FileSize = 0,
                       vod_Duration = 0, vod_Status = VODStatusRecording, vod_ViewCount = 0,
                       vod_RecordedAt = now, vod_PublishedAt = None,
                       vod_ExpiresAt = (if DefaultRetentionDays (vod_config vs) > 0
                                        then Some (addDays now (DefaultRetentionDays (vod_config vs)))
                                        else None),
                       vod_IsPublic = AutoPublish (vod_config vs), vod_Tags = [],
                       vod_Category = [], vod_Metadata = Map.empty\<rparr>;
          old = (case streamerRecordings vs streamerID of None \<Rightarrow> [] | Some ids \<Rightarrow> ids)
      in (vs\<lparr>recordings := (recordings vs)(recordingID \<mapsto> recording),
             streamerRecordings := (streamerRecordings vs)(streamerID \<mapsto> old @ [recordingID])\<rparr>,
          recording))"

text \<open>\<^verbatim>\<open>StopRecording\<close> also starts the post-processing goroutine, whose second
  critical section is \<open>processRecording\<close>, a step of its own here.\<close>

definition StopRecording :: "VODService \<Rightarrow> string \<Rightarrow> duration \<Rightarrow> int \<Rightarrow> vod_error + VODService" where
  "StopRecording vs recordingID d fileSize =
     (case recordings vs recordingID of
        None \<Rightarrow> Inl RecordingNotFound
      | Some recording \<Rightarrow>
          if vod_Status recording \<noteq> VODStatusRecording then Inl NotInRecordingStatus
          else Inr (vs\<lparr>recordings := (recordings vs)(recordingID \<mapsto>
                      recording\<lparr>vod_Duration := d, vod_FileSize := fileSize,
                                vod_Status := VODStatusProcessing\<rparr>)\<rparr>))"

definition processRecording :: "VODService \<Rightarrow> string \<Rightarrow> time \<Rightarrow> VODService" where
  "processRecording vs recordingID now =
     (case recordings vs recordingID of
        None \<Rightarrow> vs
      | Some recording \<Rightarrow>
          vs\<lparr>recordings := (recordings vs)(recordingID \<mapsto>
               recording\<lparr>vod_ThumbnailURL :=
                            (if GenerateThumbnails (vod_config vs)
                             then ''/thumbnails/'' @ recordingID @ ''.jpg''
                             else vod_ThumbnailURL recording),
                         vod_VideoURL := ''/videos/'' @ recordingID @ ''.mp4'',
                         vod_Status := VODStatusReady,
                         vod_PublishedAt :=
                            (if AutoPublish (vod_config vs) then Some now
                             else vod_PublishedAt recording)\<rparr>)\<rparr>)"

definition PublishRecording :: "VODService \<Rightarrow> string \<Rightarrow> time \<Rightarrow> vod_error + VODService" where
  "PublishRecording vs recordingID now =
     (case recordings vs recordingID of
        None \<Rightarrow> Inl RecordingNotFound
      | Some recording \<Rightarrow>
          if vod_Status recording \<noteq> VODStatusReady then Inl RecordingNotReady
          else Inr (vs\<lparr>recordings := (recordings vs)(recordingID \<mapsto>
                      recording\<lparr>vod_IsPublic := True, vod_PublishedAt := Some now\<rparr>)\<rparr>))"

definition StartPlaybackSession ::
  "VODService \<Rightarrow> string \<Rightarrow> string \<Rightarrow> string \<Rightarrow> time \<Rightarrow> vod_error + (VODService \<times> VODPlaybackSession)" where
  "StartPlaybackSession vs recordingID userID quality now =
     (case recordings vs recordingID of
        None \<Rightarrow> Inl RecordingNotFound
      | Some recording \<Rightarrow>
          if vod_Status recording \<noteq> VODStatusReady then Inl RecordingNotReady
          else if \<not> vod_IsPublic recording then Inl RecordingNotPublic
          else
            let sessionID = ''session-'' @ fmt_d now @ ''-'' @ userID;
                session = \<lparr>ps_ID = sessionID, ps_RecordingID = recordingID, ps_UserID = userID,
                           ps_StartedAt = now, ps_LastHeartbeat = now, ps_CurrentPosition = 0,
                           ps_WatchDuration = 0, ps_Completed = False, ps_Quality = quality\<rparr>
            in Inr (vs\<lparr>playbackSessions := (playbackSessions vs)(sessionID \<mapsto> session),
                       recordings := (recordings vs)(recordingID \<mapsto>
                          recording\<lparr>vod_ViewCount := vod_ViewCount recording + 1\<rparr>)\<rparr>,
                    session))"

definition UpdatePlaybackSession ::
  "VODService \<Rightarrow> string \<Rightarrow> duration \<Rightarrow> time \<Rightarrow> vod_error + VODService" where
  "UpdatePlaybackSession vs sessionID position now =
     (case playbackSessions vs sessionID of
        None \<Rightarrow> Inl PlaybackSessionNotFound
      | Some session \<Rightarrow>
          let session1 = session\<lparr>ps_LastHeartbeat := now, ps_CurrentPosition := position,
                                 ps_WatchDuration := now - ps_StartedAt session\<rparr>;
              session2 = (case recordings vs (ps_RecordingID session) of
                            None \<Rightarrow> session1
                          | Some recording \<Rightarrow>
                              if vod_Duration recording > 0
                                 \<and> reached95 position (vod_Duration recording)
                              then session1\<lparr>ps_Completed := True\<rparr>
                              else session1)
          in Inr (vs\<lparr>playbackSessions := (playbackSessions vs)(sessionID \<mapsto> session2)\<rparr>))"

definition DeleteRecording :: "VODService \<Rightarrow> string \<Rightarrow> vod_error + VODService" where
  "DeleteRecording vs recordingID =
     (case recordings vs recordingID of
        None \<Rightarrow> Inl RecordingNotFound
      | Some recording \<Rightarrow>
          Inr (vs\<lparr>streamerRecordings :=
                    removeFromIndex (streamerRecordings vs) (vod_StreamerID recording) recordingID,
                  recordings := (recordings vs)(recordingID := None)\<rparr>))"

definition UpdateRecordingMetadata ::
  "VODService \<Rightarrow> string \<Rightarrow> string option \<Rightarrow> string option \<Rightarrow> string list option \<Rightarrow> string option
     \<Rightarrow> vod_error + VODService" where
  "UpdateRecordingMetadata vs recordingID title description tags category =
     (case recordings vs recordingID of
        None \<Rightarrow> Inl RecordingNotFound
      | Some recording \<Rightarrow>
          Inr (vs\<lparr>recordings := (recordings vs)(recordingID \<mapsto>
                 recording\<lparr>vod_Title := (case title of None \<Rightarrow> vod_Title recording | Some t \<Rightarrow> t),
                           vod_Description := (case description of None \<Rightarrow> vod_Description recording
                                                                  | Some d \<Rightarrow> d),
                           vod_Tags := (case tags of None \<Rightarrow> vod_Tags recording | Some ts \<Rightarrow> ts),
                           vod_Category := (case category of None \<Rightarrow> vod_Category recording
                                                            | Some c \<Rightarrow> c)\<rparr>)\<rparr>))"

text \<open>The recording identifiers indexed under a streamer; a streamer without an index
  entry has none.\<close>

definition recordingIDsOf :: "VODService \<Rightarrow> string \<Rightarrow> string list" where
  "recordingIDsOf vs streamerID =
     (case streamerRecordings vs streamerID of None \<Rightarrow> [] | Some ids \<Rightarrow> ids)"

text \<open>A run of heartbeats on one session, each with its reported position and its
  instant; a heartbeat that fails leaves the service as it was.\<close>

fun heartbeats :: "VODService \<Rightarrow> string \<Rightarrow> (duration \<times> time) list \<Rightarrow> VODService" where
  "heartbeats vs sessionID [] = vs"
| "heartbeats vs sessionID ((position, now) # rest) =
     heartbeats (case UpdatePlaybackSession vs sessionID position now of
                   Inl e \<Rightarrow> vs | Inr vs' \<Rightarrow> vs') sessionID rest"

section \<open>Recording endpoints (pkg/service/streaming_api.go)\<close>

text \<open>
  A handler takes the decoded request body (\<open>None\<close> when the body does not decode)
  and returns the catalogue as the call leaves it together with the HTTP status and,
  on success, the identifiers of the reply. The encoder is outside the program: its
  start RPC is the function \<open>startEgress\<close> from the request to the identifier of the
  job, \<open>None\<close> when the RPC fails; the result of its stop RPC is logged and dropped.
\<close>

record StartRecordingRequest =
  req_RoomName :: string
  req_StreamerID :: string
  req_StreamerName :: string
  req_Title :: string

record RoomCompositeEgressRequest =
  eg_RoomName :: string
  eg_Layout :: string
  eg_AudioOnly :: bool
  eg_Filepath :: string

record StopRecordingRequest =
  req_RecordingID :: string
  req_EgressID :: string

datatype 'a http = HttpError nat | HttpOK 'a

definition handleStartRecording ::
  "VODService \<Rightarrow> (RoomCompositeEgressRequest \<Rightarrow> string option) \<Rightarrow> StartRecordingRequest option \<Rightarrow> time
     \<Rightarrow> VODService \<times> (string \<times> string) http" where
  "handleStartRecording vs startEgress body now =
     (case body of
        None \<Rightarrow> (vs, HttpError 400)
      | Some req \<Rightarrow>
          if req_RoomName req = [] \<or> req_StreamerID req = [] then (vs, HttpError 400)
          else
            let (vs1, rec) = StartRecording vs (req_RoomName req) (req_StreamerID req)
                               (req_StreamerName req) (req_Title req) now;
                egressReq = \<lparr>eg_RoomName = req_RoomName req, eg_Layout = ''grid-light'',
                             eg_AudioOnly = False,
                             eg_Filepath = ''/out/'' @ vod_ID rec @ ''.mp4''\<rparr>
            in case startEgress egressReq of
                 None \<Rightarrow>
                   ((case DeleteRecording vs1 (vod_ID rec) of Inl e \<Rightarrow> vs1 | Inr vs2 \<Rightarrow> vs2),
                    HttpError 500)
               | Some egressId \<Rightarrow>
                   let vs2 = (case UpdateRecordingMetadata vs1 (vod_ID rec) None None None None of
                                Inl e \<Rightarrow> vs1 | Inr v \<Rightarrow> v);
                       vs3 = (case recordings vs2 (vod_ID rec) of
                                None \<Rightarrow> vs2
                              | Some r \<Rightarrow>
                                  vs2\<lparr>recordings := (recordings vs2)(vod_ID rec \<mapsto>
                                        r\<lparr>vod_Metadata := (vod_Metadata r)(''egress_id'' \<mapsto> egressId)\<rparr>)\<rparr>)
                   in (vs3, HttpOK (vod_ID rec, egressId)))"

definition handleStopRecording ::
  "VODService \<Rightarrow> string \<Rightarrow> StopRecordingRequest option \<Rightarrow> VODService \<times> unit http" where
  "handleStopRecording vs method body =
     (if method \<noteq> ''POST'' then (vs, HttpError 405)
      else case body of
        None \<Rightarrow> (vs, HttpError 400)
      | Some req \<Rightarrow>
          if req_RecordingID req \<noteq> []
          then (case StopRecording vs (req_RecordingID req) 0 0 of
                  Inl e \<Rightarrow> (vs, HttpError 500)
                | Inr vs' \<Rightarrow> (vs', HttpOK ()))
          else (vs, HttpOK ()))"

section \<open>Concrete states used in the examples\<close>

abbreviation key1 :: string where
  "key1 \<equiv> ''00112233445566778899aabbccddeeff00112233445566778899aabbccddeeff''"

abbreviation key2 :: string where
  "key2 \<equiv> ''ffeeddccbbaa99887766554433221100ffeeddccbbaa99887766554433221100''"

text \<open>The key that \<open>alice\<close> generates at instant 0 with one hour to live, and the
  manager that holds just that key.\<close>

definition hour_key :: StreamKey where
  "hour_key =
     \<lparr>sk_Key = key1, sk_StreamerID = ''alice'', sk_RoomName = ''r1'', sk_IsActive = True,
      sk_CreatedAt = 0, sk_ExpiresAt = Some 3600000000000, sk_Metadata = Map.empty,
      sk_UsageCount = 0, sk_LastUsedAt = None, sk_Permissions = defaultPermissions\<rparr>"

definition hour_manager :: StreamKeyManager where
  "hour_manager = \<lparr>keys = [(key1, hour_key)], streamerKeys = [''alice'' \<mapsto> [key1]]\<rparr>"

definition revoked_manager :: StreamKeyManager where
  "revoked_manager = hour_manager\<lparr>keys := [(key1, hour_key\<lparr>sk_IsActive := False\<rparr>)]\<rparr>"

text \<open>A chat service with the one room \<open>r2\<close>, created at instant 0 with the given
  settings, in which the moderator \<open>mod\<close> and the participant \<open>bob\<close> are registered
  (\<open>bob\<close> with the given mute flag) and nothing has been said yet.\<close>

definition chat_with :: "ChatRoomSettings \<Rightarrow> bool \<Rightarrow> ChatService" where
  "chat_with settings muted =
     \<lparr>cs_rooms = [''r2'' \<mapsto>
        \<lparr>room_RoomName = ''r2'', room_Messages = [],
         room_Participants =
           [''mod'' \<mapsto> \<lparr>cp_Identity = ''mod'', cp_Name = ''Mod'', cp_IsModerator = True,
                          cp_IsMuted = False, cp_JoinedAt = 1, cp_MessageCount = 0\<rparr>,
            ''bob'' \<mapsto> \<lparr>cp_Identity = ''bob'', cp_Name = ''Bob'', cp_IsModerator = False,
                          cp_IsMuted = muted, cp_JoinedAt = 2, cp_MessageCount = 0\<rparr>],
         room_Moderators = {''mod''}, room_BannedUsers = Map.empty, room_CreatedAt = 0,
         room_Settings = settings\<rparr>],
      cs_badWords = [''spam'', ''badword1'', ''badword2'']\<rparr>"

text \<open>The service right after \<^verbatim>\<open>CreateChatRoom\<close> of \<open>r2\<close> with the default
  settings.\<close>

definition default_chat :: ChatService where
  "default_chat =
     \<lparr>cs_rooms = [''r2'' \<mapsto>
        \<lparr>room_RoomName = ''r2'', room_Messages = [], room_Participants = Map.empty,
         room_Moderators = {}, room_BannedUsers = Map.empty, room_CreatedAt = 0,
         room_Settings = defaultChatRoomSettings\<rparr>],
      cs_badWords = [''spam'', ''badword1'', ''badword2'']\<rparr>"

text \<open>A catalogue with the one recording that \<open>alice\<close> started at instant 1000 and that
  was stopped with duration \<open>d\<close>, processed and published, and with the one playback
  session that \<open>carol\<close> started on it at instant 8000.\<close>

definition carol_session :: VODPlaybackSession where
  "carol_session =
     \<lparr>ps_ID = ''session-8000-carol'', ps_RecordingID = ''rec-1000-alice'', ps_UserID = ''carol'',
      ps_StartedAt = 8000, ps_LastHeartbeat = 8000, ps_CurrentPosition = 0,
      ps_WatchDuration = 0, ps_Completed = False, ps_Quality = ''720p''\<rparr>"

definition watching :: "duration \<Rightarrow> VODService" where
  "watching d =
     \<lparr>recordings = [''rec-1000-alice'' \<mapsto>
        \<lparr>vod_ID = ''rec-1000-alice'', vod_RoomName = ''r1'', vod_StreamerID = ''alice'',
         vod_StreamerName = ''Alice'', vod_Title = ''Show'', vod_Description = [],
         vod_ThumbnailURL = ''/thumbnails/rec-1000-alice.jpg'',
         vod_VideoURL = ''/videos/rec-1000-alice.mp4'', vod_FileSize = 0, vod_Duration = d,
         vod_Status = VODStatusReady, vod_ViewCount = 1, vod_RecordedAt = 1000,
         vod_PublishedAt = Some 7000, vod_ExpiresAt = Some (addDays 1000 30),
         vod_IsPublic = True, vod_Tags = [], vod_Category = [], vod_Metadata = Map.empty\<rparr>],
      streamerRecordings = [''alice'' \<mapsto> [''rec-1000-alice'']],
      playbackSessions = [''session-8000-carol'' \<mapsto> carol_session],
      vod_config = defaultVODConfig\<rparr>"

text \<open>The request with which \<open>alice\<close> starts a recording of room \<open>r1\<close>, and an
  encoder whose start RPC fails on every request.\<close>

definition alice_request :: StartRecordingRequest where
  "alice_request =
     \<lparr>req_RoomName = ''r1'', req_StreamerID = ''alice'', req_StreamerName = ''Alice'',
      req_Title = ''Show''\<rparr>"

definition egress_down :: "RoomCompositeEgressRequest \<Rightarrow> string option" where
  "egress_down request = None"

section \<open>Stream keys: validation and revocation\<close>

text \<open>
  Claim C5, as the code has it. \<^verbatim>\<open>ValidateStreamKey\<close> returns a key exactly when the
  key is stored, active, and either has no expiry or the current instant is not after
  the expiry (so the expiry instant itself is still valid). It fails with
  \<open>not found\<close> exactly on an absent key, with \<open>inactive\<close> exactly on a stored
  inactive key, and with \<open>expired\<close> exactly on a stored active key whose expiry lies
  strictly before the current instant.
\<close>

theorem validate_stream_key_cases:
  "(ValidateStreamKey m key now = Inr sk) =
       (map_of (keys m) key = Some sk \<and> sk_IsActive sk \<and>
        (sk_ExpiresAt sk = None \<or> (\<exists>e. sk_ExpiresAt sk = Some e \<and> now \<le> e)))
   \<and> (ValidateStreamKey m key now = Inl KeyNotFound) = (map_of (keys m) key = None)
   \<and> (ValidateStreamKey m key now = Inl KeyInactive) =
       (\<exists>k. map_of (keys m) key = Some k \<and> \<not> sk_IsActive k)
   \<and> (ValidateStreamKey m key now = Inl KeyExpired) =
       (\<exists>k e. map_of (keys m) key = Some k \<and> sk_IsActive k \<and> sk_ExpiresAt k = Some e \<and> e < now)"
  by (auto simp: ValidateStreamKey_def expired_def split: option.splits)

theorem validate_stream_key_cases_witness:
  "ValidateStreamKey hour_manager key1 3599999999999 = Inr hour_key
   \<and> ValidateStreamKey hour_manager key2 3599999999999 = Inl KeyNotFound
   \<and> ValidateStreamKey revoked_manager key1 3599999999999 = Inl KeyInactive
   \<and> ValidateStreamKey hour_manager key1 3600000000001 = Inl KeyExpired"
  using validate_stream_key_cases [of hour_manager key1 3599999999999 hour_key]
    validate_stream_key_cases [of hour_manager key2 3599999999999]
    validate_stream_key_cases [of revoked_manager key1 3599999999999]
    validate_stream_key_cases [of hour_manager key1 3600000000001]
  by (simp add: hour_manager_def hour_key_def revoked_manager_def)

text \<open>
  The claim as worded asks for \<open>now < expires_at\<close> of every validated key. At the
  expiry instant itself the generated key is still returned.
\<close>

theorem validate_at_expiry_counterexample:
  "GenerateStreamKey NewStreamKeyManager ''alice'' ''r1'' None (Some 3600000000000) (Some key1) 0
      = Inr (hour_manager, hour_key)
   \<and> ValidateStreamKey hour_manager key1 3600000000000 = Inr hour_key
   \<and> \<not> (sk_IsActive hour_key \<and>
         (sk_ExpiresAt hour_key = None \<or> (3600000000000 :: int) < the (sk_ExpiresAt hour_key)))"
  by (simp add: GenerateStreamKey_def NewStreamKeyManager_def hour_manager_def hour_key_def
       ValidateStreamKey_def expired_def Let_def)

lemma cleanupLoop_entry:
  "map_of (keys (fst (cleanupLoop es now (m, c)))) k = None
   \<or> map_of (keys (fst (cleanupLoop es now (m, c)))) k = map_of (keys m) k"
proof (induction es arbitrary: m c)
  case Nil
  then show ?case by simp
next
  case (Cons e es)
  obtain key sk where e: "e = (key, sk)" by (cases e)
  show ?case
  proof (cases "expired (sk_ExpiresAt sk) now")
    case True
    let ?m = "m\<lparr>keys := AList.delete key (keys m),
                streamerKeys := removeFromIndex (streamerKeys m) (sk_StreamerID sk) key\<rparr>"
    from Cons.IH [of ?m "c + 1"] True e show ?thesis
      by (cases "k = key") (auto simp: delete_conv')
  next
    case False
    with Cons.IH [of m c] e show ?thesis by simp
  qed
qed

lemma step_absent:
  "map_of (keys m) k = None \<Longrightarrow> \<not> draws k st \<Longrightarrow> map_of (keys (skm_step m st)) k = None"
proof (cases st)
  case (Pair now op)
  assume a: "map_of (keys m) k = None" "\<not> draws k st"
  show ?thesis
  proof (cases op)
    case OpCleanup
    with Pair a cleanupLoop_entry [of "keys m" now m 0 k] show ?thesis
      by (auto simp: CleanupExpiredKeys_def)
  qed (use Pair a in \<open>auto simp: GenerateStreamKey_def MarkKeyAsUsed_def RevokeStreamKey_def
        DeleteStreamKey_def UpdateStreamKeyMetadata_def update_conv' delete_conv' Let_def
        split: option.splits\<close>)
qed

lemma step_revoked:
  "revoked m k \<Longrightarrow> \<not> draws k st \<Longrightarrow>
     revoked (skm_step m st) k \<or> (map_of (keys (skm_step m st)) k = None \<and> removes k st)"
proof (cases st)
  case (Pair now op)
  assume a: "revoked m k" "\<not> draws k st"
  show ?thesis
  proof (cases op)
    case OpCleanup
    with Pair a cleanupLoop_entry [of "keys m" now m 0 k] show ?thesis
      by (auto simp: CleanupExpiredKeys_def revoked_def split: option.splits)
  qed (use Pair a in \<open>auto simp: revoked_def GenerateStreamKey_def MarkKeyAsUsed_def
        RevokeStreamKey_def DeleteStreamKey_def UpdateStreamKeyMetadata_def update_conv'
        delete_conv' Let_def split: option.splits\<close>)
qed

lemma run_absent:
  "map_of (keys m) k = None \<Longrightarrow> \<forall>st\<in>set ops. \<not> draws k st \<Longrightarrow>
     map_of (keys (skm_run m ops)) k = None"
  unfolding skm_run_def
  by (induction ops arbitrary: m) (simp_all add: step_absent)

lemma run_revoked:
  "revoked m k \<Longrightarrow> \<forall>st\<in>set ops. \<not> draws k st \<Longrightarrow>
     revoked (skm_run m ops) k
     \<or> (map_of (keys (skm_run m ops)) k = None \<and> (\<exists>st\<in>set ops. removes k st))"
proof (induction ops arbitrary: m)
  case Nil
  then show ?case by (simp add: skm_run_def)
next
  case (Cons st ops)
  from Cons.prems have nd: "\<not> draws k st" and nds: "\<forall>st\<in>set ops. \<not> draws k st" by simp_all
  from step_revoked [OF Cons.prems(1) nd] show ?case
  proof
    assume "revoked (skm_step m st) k"
    from Cons.IH [OF this nds] show ?thesis by (auto simp: skm_run_def)
  next
    assume g: "map_of (keys (skm_step m st)) k = None \<and> removes k st"
    with run_absent [of "skm_step m st" k ops] nds show ?thesis by (auto simp: skm_run_def)
  qed
qed

text \<open>
  Claim C7. After \<^verbatim>\<open>RevokeStreamKey\<close> has succeeded on \<open>k\<close>, let the manager run
  any later operations, none of which is a generation whose random source draws \<open>k\<close>
  again. Then validation of \<open>k\<close> fails at every instant: either the entry is still
  stored with \<open>active = false\<close> and validation answers \<open>inactive\<close>, or the entry is
  gone, validation answers \<open>not found\<close>, and a delete of \<open>k\<close> or a sweep was among
  the operations.
\<close>

theorem revoke_absorbing:
  assumes "RevokeStreamKey m k = Inr m'" and "\<forall>st\<in>set ops. \<not> draws k st"
  shows "(ValidateStreamKey (skm_run m' ops) k now = Inl KeyInactive \<and>
            (\<exists>sk. map_of (keys (skm_run m' ops)) k = Some sk \<and> \<not> sk_IsActive sk))
         \<or> (ValidateStreamKey (skm_run m' ops) k now = Inl KeyNotFound \<and>
            map_of (keys (skm_run m' ops)) k = None \<and> (\<exists>st\<in>set ops. removes k st))"
proof -
  from assms(1) have "revoked m' k"
    by (auto simp: RevokeStreamKey_def revoked_def update_conv' split: option.splits)
  from run_revoked [OF this assms(2)] show ?thesis
    by (auto simp: revoked_def ValidateStreamKey_def split: option.splits)
qed

text \<open>After the revocation the key is used, another key is generated, the metadata are
  changed and the sweep runs before the hour is over: no operation draws the key again,
  and validation still answers \<open>inactive\<close>.\<close>

theorem revoke_absorbing_witness:
  "RevokeStreamKey hour_manager key1 = Inr revoked_manager
   \<and> map (draws key1)
        [(10, OpMarkKeyAsUsed key1),
         (20, OpGenerate ''bob'' ''r2'' None None (Some key2)),
         (30, OpUpdateMetadata key1 [''note'' \<mapsto> ''x'']),
         (40, OpCleanup), (50, OpValidate key1)] = [False, False, False, False, False]
   \<and> ValidateStreamKey
        (skm_run revoked_manager
           [(10, OpMarkKeyAsUsed key1),
            (20, OpGenerate ''bob'' ''r2'' None None (Some key2)),
            (30, OpUpdateMetadata key1 [''note'' \<mapsto> ''x'']),
            (40, OpCleanup), (50, OpValidate key1)]) key1 60 = Inl KeyInactive"
proof -
  let ?ops = "[(10, OpMarkKeyAsUsed key1),
               (20, OpGenerate ''bob'' ''r2'' None None (Some key2)),
               (30, OpUpdateMetadata key1 [''note'' \<mapsto> ''x'']),
               (40, OpCleanup), (50, OpValidate key1)]"
  have h1: "RevokeStreamKey hour_manager key1 = Inr revoked_manager"
    by (simp add: RevokeStreamKey_def hour_manager_def revoked_manager_def)
  have h2: "\<forall>st \<in> set ?ops. \<not> draws key1 st" by simp
  have h3: "map (draws key1) ?ops = [False, False, False, False, False]" by simp
  have h4: "map_of (keys (skm_run revoked_manager ?ops)) key1 \<noteq> None"
    by (simp add: skm_run_def revoked_manager_def hour_manager_def hour_key_def
         MarkKeyAsUsed_def GenerateStreamKey_def UpdateStreamKeyMetadata_def
         CleanupExpiredKeys_def expired_def Let_def)
  from revoke_absorbing [OF h1 h2, of 60] h4
  have "ValidateStreamKey (skm_run revoked_manager ?ops) key1 60 = Inl KeyInactive" by auto
  with h1 h3 show ?thesis by blast
qed

section \<open>Analytics: the viewer counters\<close>

lemma isUnique_iff:
  "isUnique sessions v =
     (\<not> (\<exists>(k, s) \<in> set sessions. vs_ViewerID s = v \<and> vs_LeftAt s \<noteq> None))"
  by (induction sessions v rule: isUnique.induct) auto

text \<open>
  What a join does to the four counters. It adds one to total and to current and sets
  peak to the maximum of the old peak and the new current. It adds one to unique unless
  the session table of the room holds, at that moment, a session of the viewer with a
  leave instant. The table keeps one session for each viewer, the latest: a join
  replaces the viewer's earlier session, closed or open, by a new open one.
\<close>

lemma RecordViewerJoin_counts:
  "viewer_counts (RecordViewerJoin as room v platform device country region now) room =
       (case streamAnalytics as room of
          None \<Rightarrow> None
        | Some a \<Rightarrow>
            Some (an_TotalViewers a + 1,
                  an_UniqueViewers a +
                    (if \<exists>(k, s) \<in> set (case viewerSessions as room of None \<Rightarrow> [] | Some ss \<Rightarrow> ss).
                          vs_ViewerID s = v \<and> vs_LeftAt s \<noteq> None
                     then 0 else 1),
                  an_CurrentViewers a + 1,
                  max (an_PeakViewers a) (an_CurrentViewers a + 1)))"
  by (cases "streamAnalytics as room"; cases "viewerSessions as room")
     (simp_all add: viewer_counts_def RecordViewerJoin_def Let_def isUnique_iff)

text \<open>
  Claim C1 on the code. On a freshly started stream of room \<open>r3\<close> the events join
  \<open>alice\<close>, join \<open>bob\<close>, join \<open>alice\<close>, leave \<open>alice\<close>, join \<open>alice\<close> leave
  total = 4, unique = 3, current = 3 and peak = 3, where the claim has 4, 2, 2 and 2:
  the second join of \<open>alice\<close> finds her first session still open, counts her as
  unique once more and raises current to 3, so two identities are counted as three
  unique viewers. The rule of the claim fails as well: on join, leave, join, join of
  \<open>alice\<close> alone the last join is counted as unique although a completed session
  of hers came before it, because the third event replaced that session in the table;
  the counters end at total = 3, unique = 2, current = 2, peak = 2 for one identity.
\<close>

theorem viewer_scenario_counts:
  "viewer_counts
     (viewer_events (StartStreamAnalytics NewAnalyticsService ''r3'' ''streamer'' 0) ''r3''
        [(1, viewer_join ''alice''), (2, viewer_join ''bob''), (3, viewer_join ''alice''),
         (4, viewer_leave ''alice''), (5, viewer_join ''alice'')]) ''r3''
     = Some (4, 3, 3, 3)
   \<and> viewer_counts
     (viewer_events (StartStreamAnalytics NewAnalyticsService ''r3'' ''streamer'' 0) ''r3''
        [(1, viewer_join ''alice''), (2, viewer_leave ''alice''), (3, viewer_join ''alice''),
         (4, viewer_join ''alice'')]) ''r3''
     = Some (3, 2, 2, 2)"
  by (simp add: viewer_counts_def StartStreamAnalytics_def NewAnalyticsService_def
         RecordViewerJoin_def RecordViewerLeave_def Let_def)

section \<open>Reactions: the per-second limit\<close>

lemma Second_sdiv_3: "Second sdiv (3::int) = 333333333"
  by (simp add: Second_def signed_divide_int_def)

lemma SendReaction_config [simp]:
  "rs_config (fst (SendReaction rs room u n ty pos t)) = rs_config rs"
  by (simp add: SendReaction_def Let_def split: option.splits)

lemma SendReaction_accepted_stamp:
  "snd (SendReaction rs room u n ty pos t) = Inr r \<Longrightarrow>
     \<exists>rl. rateLimitOf (fst (SendReaction rs room u n ty pos t)) room u = Some rl
          \<and> rl_LastReaction rl = t"
  by (auto simp: SendReaction_def rateLimitOf_def updateRateLimit_def Let_def
      split: option.splits if_splits)

lemma SendReaction_accepted_gap:
  assumes "EnableRateLimit (rs_config rs)" "MaxReactionsPerSecond (rs_config rs) = 3"
    and "rateLimitOf rs room u = Some rl"
    and "snd (SendReaction rs room u n ty pos t) = Inr r"
  shows "333333333 \<le> t - rl_LastReaction rl"
  using assms
  by (auto simp: SendReaction_def rateLimitOf_def checkRateLimit_def Second_sdiv_3 Let_def
      split: option.splits if_splits)

lemma SendReaction_refused_keeps:
  assumes "snd (SendReaction rs room u n ty pos t) = Inl e" and "rateLimitOf rs room u = Some rl"
  shows "rateLimitOf (fst (SendReaction rs room u n ty pos t)) room u = Some rl"
  using assms
  by (auto simp: SendReaction_def rateLimitOf_def Let_def split: option.splits if_splits)

lemma SendReaction_first:
  assumes "rateLimitOf rs room u = None" and "0 \<le> MaxRecentReactions (rs_config rs)"
  shows "\<exists>r. snd (SendReaction rs room u n ty pos t) = Inr r"
  using assms
  by (auto simp: SendReaction_def rateLimitOf_def checkRateLimit_def newReactionRoom_def Let_def
      split: option.splits if_splits)

lemma SendReaction_too_soon:
  assumes "EnableRateLimit (rs_config rs)" "MaxReactionsPerSecond (rs_config rs) = 3"
    and "rateLimitOf rs room u = Some rl" and "t - rl_LastReaction rl < 333333333"
  shows "snd (SendReaction rs room u n ty pos t) = Inl TooManyPerSecond"
  using assms
  by (auto simp: SendReaction_def rateLimitOf_def checkRateLimit_def Second_sdiv_3 Let_def
      split: option.splits if_splits)

lemma reaction_run_Cons:
  "snd (reaction_run rs room u n ty (t # rest)) =
     snd (SendReaction rs room u n ty None t) #
     snd (reaction_run (fst (SendReaction rs room u n ty None t)) room u n ty rest)"
  by (simp add: Let_def split_beta)

lemma reaction_run_length [simp]: "length (snd (reaction_run rs room u n ty ts)) = length ts"
  by (induction ts arbitrary: rs) (simp_all add: Let_def split_beta)

lemma run_after_stamp:
  assumes "EnableRateLimit (rs_config rs)" "MaxReactionsPerSecond (rs_config rs) = 3"
    and "rateLimitOf rs room u = Some rl"
    and "j < length ts" and "snd (reaction_run rs room u n ty ts) ! j = Inr r"
  shows "333333333 \<le> ts ! j - rl_LastReaction rl"
  using assms
proof (induction ts arbitrary: rs rl j)
  case Nil
  then show ?case by simp
next
  case (Cons t rest)
  let ?res = "snd (SendReaction rs room u n ty None t)"
  let ?rs1 = "fst (SendReaction rs room u n ty None t)"
  have cfg1: "EnableRateLimit (rs_config ?rs1)" "MaxReactionsPerSecond (rs_config ?rs1) = 3"
    using Cons.prems(1,2) by simp_all
  show ?case
  proof (cases j)
    case 0
    with Cons.prems(5) have "?res = Inr r"
      by (simp add: reaction_run_Cons del: reaction_run.simps)
    from SendReaction_accepted_gap [OF Cons.prems(1,2,3) this] 0 show ?thesis by simp
  next
    case (Suc j')
    with Cons.prems(4,5) have j': "j' < length rest"
      and r: "snd (reaction_run ?rs1 room u n ty rest) ! j' = Inr r"
      by (simp_all add: reaction_run_Cons del: reaction_run.simps)
    show ?thesis
    proof (cases ?res)
      case (Inl e)
      from SendReaction_refused_keeps [OF Inl Cons.prems(3)]
      have "rateLimitOf ?rs1 room u = Some rl" .
      from Cons.IH [OF cfg1 this j' r] Suc show ?thesis by simp
    next
      case (Inr r0)
      from SendReaction_accepted_stamp [OF Inr] obtain rl1
        where rl1: "rateLimitOf ?rs1 room u = Some rl1" "rl_LastReaction rl1 = t" by blast
      from SendReaction_accepted_gap [OF Cons.prems(1,2,3) Inr]
      have "333333333 \<le> t - rl_LastReaction rl" .
      with Cons.IH [OF cfg1 rl1(1) j' r] rl1(2) Suc show ?thesis by simp
    qed
  qed
qed

lemma run_pairwise_gap:
  assumes "EnableRateLimit (rs_config rs)" "MaxReactionsPerSecond (rs_config rs) = 3"
    and "i < j" "j < length ts"
    and "snd (reaction_run rs room u n ty ts) ! i = Inr ri"
    and "snd (reaction_run rs room u n ty ts) ! j = Inr rj"
  shows "333333333 \<le> ts ! j - ts ! i"
  using assms
proof (induction ts arbitrary: rs i j)
  case Nil
  then show ?case by simp
next
  case (Cons t rest)
  let ?res = "snd (SendReaction rs room u n ty None t)"
  let ?rs1 = "fst (SendReaction rs room u n ty None t)"
  have cfg1: "EnableRateLimit (rs_config ?rs1)" "MaxReactionsPerSecond (rs_config ?rs1) = 3"
    using Cons.prems(1,2) by simp_all
  from Cons.prems(3) obtain j' where j: "j = Suc j'" by (cases j) auto
  with Cons.prems(4,6) have j': "j' < length rest"
    and rj: "snd (reaction_run ?rs1 room u n ty rest) ! j' = Inr rj"
    by (simp_all add: reaction_run_Cons del: reaction_run.simps)
  show ?case
  proof (cases i)
    case 0
    with Cons.prems(5) have "?res = Inr ri"
      by (simp add: reaction_run_Cons del: reaction_run.simps)
    from SendReaction_accepted_stamp [OF this] obtain rl1
      where rl1: "rateLimitOf ?rs1 room u = Some rl1" "rl_LastReaction rl1 = t" by blast
    from run_after_stamp [OF cfg1 rl1(1) j' rj] rl1(2) 0 j show ?thesis by simp
  next
    case (Suc i')
    with Cons.prems(3,5) j have "i' < j'"
      and "snd (reaction_run ?rs1 room u n ty rest) ! i' = Inr ri"
      by (simp_all add: reaction_run_Cons del: reaction_run.simps)
    from Cons.IH [OF cfg1 this(1) j' this(2) rj] Suc j show ?thesis by simp
  qed
qed

lemma four_in_a_burst:
  assumes cfg: "EnableRateLimit (rs_config rs)" "MaxReactionsPerSecond (rs_config rs) = 3"
    and fresh: "rateLimitOf rs room u = None" and cap: "0 \<le> MaxRecentReactions (rs_config rs)"
    and times: "t1 \<le> t2" "t2 \<le> t3" "t3 \<le> t4" "t4 - t1 \<le> 100000000"
  shows "\<exists>r. snd (reaction_run rs room u n ty [t1, t2, t3, t4]) =
           [Inr r, Inl TooManyPerSecond, Inl TooManyPerSecond, Inl TooManyPerSecond]"
proof -
  let ?send = "\<lambda>s t. SendReaction s room u n ty None t"
  let ?rs1 = "fst (?send rs t1)"
  let ?rs2 = "fst (?send ?rs1 t2)"
  let ?rs3 = "fst (?send ?rs2 t3)"
  from SendReaction_first [OF fresh cap] obtain r where r: "snd (?send rs t1) = Inr r" by blast
  from SendReaction_accepted_stamp [OF r] obtain rl
    where rl: "rateLimitOf ?rs1 room u = Some rl" "rl_LastReaction rl = t1" by blast
  have cfg1: "EnableRateLimit (rs_config ?rs1)" "MaxReactionsPerSecond (rs_config ?rs1) = 3"
    using cfg by simp_all
  have c2: "snd (?send ?rs1 t2) = Inl TooManyPerSecond"
    using SendReaction_too_soon [OF cfg1 rl(1)] rl(2) times by simp
  have rl2: "rateLimitOf ?rs2 room u = Some rl"
    using SendReaction_refused_keeps [OF c2 rl(1)] .
  have cfg2: "EnableRateLimit (rs_config ?rs2)" "MaxReactionsPerSecond (rs_config ?rs2) = 3"
    using cfg by simp_all
  have c3: "snd (?send ?rs2 t3) = Inl TooManyPerSecond"
    using SendReaction_too_soon [OF cfg2 rl2] rl(2) times by simp
  have rl3: "rateLimitOf ?rs3 room u = Some rl"
    using SendReaction_refused_keeps [OF c3 rl2] .
  have cfg3: "EnableRateLimit (rs_config ?rs3)" "MaxReactionsPerSecond (rs_config ?rs3) = 3"
    using cfg by simp_all
  have c4: "snd (?send ?rs3 t4) = Inl TooManyPerSecond"
    using SendReaction_too_soon [OF cfg3 rl3] rl(2) times by simp
  show ?thesis
    using r c2 c3 c4 by (simp add: Let_def split_beta)
qed

text \<open>
  Claim C2, as the code has it. With rate limiting enabled and
  \<^verbatim>\<open>MaxReactionsPerSecond = 3\<close>, in any run of \<^verbatim>\<open>SendReaction\<close> calls by one
  identity to one room, any two accepted calls lie at least 333333333 ns (one second
  divided by 3) apart. In particular, of four calls issued within 100 ms by an identity
  that has no rate-limit counter in the room yet, the first is accepted and each of the
  other three fails with the per-second rate-limit error: one success and three
  failures (the capacity of the recent list not being negative).
\<close>

theorem reaction_per_second_gap:
  assumes "EnableRateLimit (rs_config rs)" and "MaxReactionsPerSecond (rs_config rs) = 3"
  shows "(\<forall>i j. i < j \<longrightarrow> j < length ts \<longrightarrow>
            \<not> isl (snd (reaction_run rs room u n ty ts) ! i) \<longrightarrow>
            \<not> isl (snd (reaction_run rs room u n ty ts) ! j) \<longrightarrow>
            333333333 \<le> ts ! j - ts ! i)
       \<and> (rateLimitOf rs room u = None \<longrightarrow> 0 \<le> MaxRecentReactions (rs_config rs) \<longrightarrow>
            t1 \<le> t2 \<longrightarrow> t2 \<le> t3 \<longrightarrow> t3 \<le> t4 \<longrightarrow> t4 - t1 \<le> 100000000 \<longrightarrow>
            (\<exists>r. snd (reaction_run rs room u n ty [t1, t2, t3, t4]) =
               [Inr r, Inl TooManyPerSecond, Inl TooManyPerSecond, Inl TooManyPerSecond]))"
proof (intro conjI allI impI)
  fix i j
  assume "i < j" "j < length ts"
    and "\<not> isl (snd (reaction_run rs room u n ty ts) ! i)"
    and "\<not> isl (snd (reaction_run rs room u n ty ts) ! j)"
  moreover from this(3,4) obtain ri rj
    where "snd (reaction_run rs room u n ty ts) ! i = Inr ri"
      and "snd (reaction_run rs room u n ty ts) ! j = Inr rj"
    by (metis isl_def sum.exhaust)
  ultimately show "333333333 \<le> ts ! j - ts ! i"
    using run_pairwise_gap [OF assms] by blast
next
  assume "rateLimitOf rs room u = None" "0 \<le> MaxRecentReactions (rs_config rs)"
    "t1 \<le> t2" "t2 \<le> t3" "t3 \<le> t4" "t4 - t1 \<le> 100000000"
  from four_in_a_burst [OF assms this]
  show "\<exists>r. snd (reaction_run rs room u n ty [t1, t2, t3, t4]) =
           [Inr r, Inl TooManyPerSecond, Inl TooManyPerSecond, Inl TooManyPerSecond]" .
qed

text \<open>The default service, and \<open>alice\<close> reacting four times within 90 ms.\<close>

theorem reaction_per_second_gap_witness:
  "EnableRateLimit (rs_config (NewReactionService None))
   \<and> MaxReactionsPerSecond (rs_config (NewReactionService None)) = 3
   \<and> rateLimitOf (NewReactionService None) ''r1'' ''alice'' = None
   \<and> map isl (snd (reaction_run (NewReactionService None) ''r1'' ''alice'' ''Alice'' ''like''
        [1000000000, 1030000000, 1060000000, 1090000000])) = [False, True, True, True]"
proof -
  have a: "EnableRateLimit (rs_config (NewReactionService None))"
    and b: "MaxReactionsPerSecond (rs_config (NewReactionService None)) = 3"
    and c: "rateLimitOf (NewReactionService None) ''r1'' ''alice'' = None"
    and d: "0 \<le> MaxRecentReactions (rs_config (NewReactionService None))"
    by (simp_all add: NewReactionService_def defaultReactionConfig_def rateLimitOf_def)
  from reaction_per_second_gap [OF a b, of "[]" "''r1''" "''alice''" "''Alice''" "''like''"
         1000000000 1030000000 1060000000 1090000000] c d
  obtain r where "snd (reaction_run (NewReactionService None) ''r1'' ''alice'' ''Alice'' ''like''
        [1000000000, 1030000000, 1060000000, 1090000000]) =
           [Inr r, Inl TooManyPerSecond, Inl TooManyPerSecond, Inl TooManyPerSecond]"
    by auto
  then have "map isl (snd (reaction_run (NewReactionService None) ''r1'' ''alice'' ''Alice'' ''like''
        [1000000000, 1030000000, 1060000000, 1090000000])) = [False, True, True, True]"
    by simp
  with a b c show ?thesis by blast
qed

text \<open>The claim as worded expects three successes and one failure of four calls within
  100 ms. On the default service the four calls at 0, 30, 60 and 90 ms give one success
  followed by three failures.\<close>

theorem reaction_burst_counterexample:
  "map isl (snd (reaction_run (NewReactionService None) ''r1'' ''alice'' ''Alice'' ''like''
      [0, 30000000, 60000000, 90000000])) = [False, True, True, True]"
  by (simp add: NewReactionService_def defaultReactionConfig_def SendReaction_def Let_def
       checkRateLimit_def updateRateLimit_def newReactionRoom_def Second_sdiv_3 Minute_def
       Second_def)

section \<open>Chat: the mute gate, the rate limit and the word filter\<close>

lemmas fmt_simps = fmt_d_def decimal.simps digit_def

lemma foldl_replaceWord: "foldl replaceWord content ws = content"
  by (induction ws) (simp_all add: replaceWord_def)

lemma filterBadWords_same: "filterBadWords cs content = content"
  by (simp add: filterBadWords_def foldl_replaceWord)

text \<open>
  Claim C3 on the code. In the room \<open>r2\<close> created with the default settings, which
  enable the bad-word filter, \<open>bob\<close> sends the configured bad word \<open>spam\<close>: the send
  succeeds, and the content returned and the content stored in the log are both
  \<open>spam\<close>, not masked.
\<close>

theorem bad_word_stored_unmasked:
  "CreateChatRoom NewChatService ''r2'' None 0 = Inr default_chat
   \<and> map_option (set_EnableBadWords \<circ> room_Settings) (cs_rooms default_chat ''r2'') = Some True
   \<and> ''spam'' \<in> set (cs_badWords default_chat)
   \<and> map_sum id msg_Content
        (snd (SendMessage default_chat ''r2'' ''bob'' ''spam'' ''text'' [] None 5)) = Inr ''spam''
   \<and> map msg_Content
        (log_of (fst (SendMessage default_chat ''r2'' ''bob'' ''spam'' ''text'' [] None 5)) ''r2'')
       = [''spam'']"
  by (simp add: CreateChatRoom_def NewChatService_def default_chat_def defaultChatRoomSettings_def
       SendMessage_def countRecentMessages_def getLastMessage_def filterBadWords_def
       replaceWord_def log_of_def Let_def Minute_def Second_def)

text \<open>
  Claim C9. A send by a participant of the room whose mute flag is set fails with the
  muted error and leaves the whole chat service, the room log included, as it was,
  whatever the content, its length, the sender's recent messages and the slow-mode
  delay are: the mute test comes first. After a successful \<^verbatim>\<open>MuteParticipant\<close> the
  target's sends fail in this way.
\<close>

theorem muted_sender_rejected:
  "(cs_rooms cs r = Some room \<longrightarrow> room_Participants room s = Some p \<longrightarrow> cp_IsMuted p \<longrightarrow>
       SendMessage cs r s content ty mentioned reply now = (cs, Inl ParticipantMuted))
   \<and> (MuteParticipant cs r s moderator d = Inr cs' \<longrightarrow>
       SendMessage cs' r s content ty mentioned reply now = (cs', Inl ParticipantMuted))"
proof (intro conjI impI)
  assume a: "cs_rooms cs r = Some room" "room_Participants room s = Some p" "cp_IsMuted p"
  then have "(room_Participants room)(s \<mapsto> p) = room_Participants room"
    and "(cs_rooms cs)(r \<mapsto> room) = cs_rooms cs"
    by (simp_all add: map_upd_triv)
  with a show "SendMessage cs r s content ty mentioned reply now = (cs, Inl ParticipantMuted)"
    by (simp add: SendMessage_def Let_def)
next
  assume "MuteParticipant cs r s moderator d = Inr cs'"
  then obtain room p where m: "cs_rooms cs r = Some room" "room_Participants room s = Some p"
    "cs' = cs\<lparr>cs_rooms := (cs_rooms cs)(r \<mapsto>
              room\<lparr>room_Participants := (room_Participants room)(s \<mapsto> p\<lparr>cp_IsMuted := True\<rparr>)\<rparr>)\<rparr>"
    by (auto simp: MuteParticipant_def split: option.splits if_splits)
  then show "SendMessage cs' r s content ty mentioned reply now = (cs', Inl ParticipantMuted)"
    by (simp add: SendMessage_def Let_def)
qed

text \<open>The moderator mutes \<open>bob\<close>, who then sends 501 bytes to a room that allows 500:
  the answer is the muted error, not the length error.\<close>

theorem muted_sender_rejected_witness:
  "MuteParticipant (chat_with defaultChatRoomSettings False) ''r2'' ''bob'' ''mod'' 0
      = Inr (chat_with defaultChatRoomSettings True)
   \<and> SendMessage (chat_with defaultChatRoomSettings True) ''r2'' ''bob''
        (replicate 501 CHR ''a'') ''text'' [] None 5
      = (chat_with defaultChatRoomSettings True, Inl ParticipantMuted)"
proof -
  have h: "MuteParticipant (chat_with defaultChatRoomSettings False) ''r2'' ''bob'' ''mod'' 0
      = Inr (chat_with defaultChatRoomSettings True)"
    by (simp add: MuteParticipant_def chat_with_def)
  from muted_sender_rejected [of "chat_with defaultChatRoomSettings False" "''r2''" _ "''bob''" _
         "replicate 501 CHR ''a''" "''text''" "[]" None 5 "''mod''" 0
         "chat_with defaultChatRoomSettings True"] h
  show ?thesis by blast
qed

lemma countRecentLoop_ordered:
  "sorted_wrt (\<lambda>a b. msg_Timestamp b \<le> msg_Timestamp a) xs \<Longrightarrow>
     countRecentLoop xs s cutoff c =
       c + length (filter (\<lambda>m. msg_SenderID m = s \<and> cutoff \<le> msg_Timestamp m) xs)"
proof (induction xs arbitrary: c)
  case Nil
  then show ?case by simp
next
  case (Cons m older)
  show ?case
  proof (cases "msg_Timestamp m < cutoff")
    case True
    with Cons.prems have "\<forall>x\<in>set older. \<not> cutoff \<le> msg_Timestamp x" by auto
    then have "filter (\<lambda>m. msg_SenderID m = s \<and> cutoff \<le> msg_Timestamp m) older = []"
      by (simp add: filter_empty_conv)
    with True show ?thesis by simp
  next
    case False
    with Cons show ?thesis by simp
  qed
qed

lemma countRecentMessages_ordered:
  assumes "sorted (map msg_Timestamp (room_Messages room))"
  shows "countRecentMessages room s d now =
           length (filter (\<lambda>m. msg_SenderID m = s \<and> now - d \<le> msg_Timestamp m)
                     (room_Messages room))"
proof -
  from assms
  have "sorted_wrt (\<lambda>a b. msg_Timestamp b \<le> msg_Timestamp a) (rev (room_Messages room))"
    by (simp add: sorted_map sorted_wrt_rev)
  from countRecentLoop_ordered [OF this, of s "now - d" 0] show ?thesis
    by (simp add: countRecentMessages_def rev_filter [symmetric])
qed

lemma rate_limited_iff:
  assumes "cs_rooms cs r = Some room" and "sorted (map msg_Timestamp (room_Messages room))"
  shows "(snd (SendMessage cs r s c ty men rep now) = Inl RateLimitExceeded) =
          (\<not> isMuted room s \<and> int (length c) \<le> set_MaxMessageLength (room_Settings room) \<and>
           set_MaxMessagesPerMin (room_Settings room) \<le>
             int (length (filter (\<lambda>m. msg_SenderID m = s \<and> now - Minute \<le> msg_Timestamp m)
                            (room_Messages room))))"
proof -
  let ?p = "case room_Participants room s of
              None \<Rightarrow> \<lparr>cp_Identity = s, cp_Name = s, cp_IsModerator = False, cp_IsMuted = False,
                         cp_JoinedAt = now, cp_MessageCount = 0\<rparr>
            | Some p \<Rightarrow> p"
  let ?room1 = "room\<lparr>room_Participants := (room_Participants room)(s \<mapsto> ?p)\<rparr>"
  have m: "cp_IsMuted ?p = isMuted room s" by (simp add: isMuted_def split: option.splits)
  have "sorted (map msg_Timestamp (room_Messages ?room1))" using assms(2) by simp
  from countRecentMessages_ordered [OF this, of s Minute now]
  have c: "countRecentMessages ?room1 s Minute now =
      length (filter (\<lambda>m. msg_SenderID m = s \<and> now - Minute \<le> msg_Timestamp m)
                (room_Messages room))"
    by simp
  show ?thesis
    using assms(1) m c by (auto simp: SendMessage_def Let_def)
qed

lemma SendMessage_accepted:
  assumes "cs_rooms cs r = Some room" and "snd (SendMessage cs r s c ty men rep t) = Inr m"
  shows "\<exists>room'. cs_rooms (fst (SendMessage cs r s c ty men rep t)) r = Some room' \<and>
           room_Settings room' = room_Settings room \<and>
           room_Messages room' = room_Messages room @ [m] \<and>
           msg_SenderID m = s \<and> msg_Timestamp m = t \<and> \<not> isMuted room' s"
  using assms
  by (auto simp: SendMessage_def Let_def isMuted_def split: if_splits option.splits)

lemma SendMessage_accepts:
  assumes "cs_rooms cs r = Some room" and "\<not> isMuted room s"
    and "int (length c) \<le> set_MaxMessageLength (room_Settings room)"
    and "int (countRecentMessages room s Minute now) < set_MaxMessagesPerMin (room_Settings room)"
    and "case getLastMessage room s of
           None \<Rightarrow> True
         | Some l \<Rightarrow> set_SlowModeDelay (room_Settings room) \<le> now - msg_Timestamp l"
  shows "\<not> isl (snd (SendMessage cs r s c ty men rep now))"
  using assms
  by (auto simp: SendMessage_def Let_def isMuted_def countRecentMessages_def getLastMessage_def
      split: option.splits)

lemma send_run_Cons:
  "send_run cs r s ((t, c) # rest) =
     (fst (send_run (fst (SendMessage cs r s c ''text'' [] None t)) r s rest),
      snd (SendMessage cs r s c ''text'' [] None t) #
      snd (send_run (fst (SendMessage cs r s c ''text'' [] None t)) r s rest))"
  by (simp add: Let_def split_beta)

lemma send_run_all_accepted:
  assumes "cs_rooms cs r = Some room"
    and "list_all (\<lambda>res. \<not> isl res) (snd (send_run cs r s xs))"
  shows "\<exists>room' new. cs_rooms (fst (send_run cs r s xs)) r = Some room' \<and>
           room_Settings room' = room_Settings room \<and>
           room_Messages room' = room_Messages room @ new \<and>
           map msg_Timestamp new = map fst xs \<and>
           (\<forall>m\<in>set new. msg_SenderID m = s) \<and>
           (xs \<noteq> [] \<longrightarrow> \<not> isMuted room' s)"
  using assms
proof (induction xs arbitrary: cs room)
  case Nil
  then show ?case by simp
next
  case (Cons x rest)
  obtain t c where x: "x = (t, c)" by (cases x)
  let ?cs1 = "fst (SendMessage cs r s c ''text'' [] None t)"
  from Cons.prems(2) x obtain m where m: "snd (SendMessage cs r s c ''text'' [] None t) = Inr m"
    and rest: "list_all (\<lambda>res. \<not> isl res) (snd (send_run ?cs1 r s rest))"
    by (cases "snd (SendMessage cs r s c ''text'' [] None t)")
       (auto simp: send_run_Cons simp del: send_run.simps)
  from SendMessage_accepted [OF Cons.prems(1) m] obtain room1
    where room1: "cs_rooms ?cs1 r = Some room1" "room_Settings room1 = room_Settings room"
      "room_Messages room1 = room_Messages room @ [m]" "msg_SenderID m = s"
      "msg_Timestamp m = t" "\<not> isMuted room1 s" by blast
  from Cons.IH [OF room1(1) rest] obtain room' new
    where new: "cs_rooms (fst (send_run ?cs1 r s rest)) r = Some room'"
      "room_Settings room' = room_Settings room1"
      "room_Messages room' = room_Messages room1 @ new"
      "map msg_Timestamp new = map fst rest" "\<forall>m\<in>set new. msg_SenderID m = s"
      "rest \<noteq> [] \<longrightarrow> \<not> isMuted room' s" by blast
  have muted: "\<not> isMuted room' s"
  proof (cases rest)
    case Nil
    with new(1) room1(1,6) show ?thesis by simp
  next
    case (Cons a list)
    with new(6) show ?thesis by simp
  qed
  have "cs_rooms (fst (send_run cs r s (x # rest))) r = Some room' \<and>
        room_Settings room' = room_Settings room \<and>
        room_Messages room' = room_Messages room @ (m # new) \<and>
        map msg_Timestamp (m # new) = map fst (x # rest) \<and>
        (\<forall>m'\<in>set (m # new). msg_SenderID m' = s) \<and> \<not> isMuted room' s"
    using new room1 muted x by (simp add: send_run_Cons del: send_run.simps)
  then show ?case by blast
qed

lemma round_trip:
  assumes room: "cs_rooms cs r = Some room"
    and old: "sorted (map msg_Timestamp (room_Messages room))"
             "\<forall>m\<in>set (room_Messages room). msg_Timestamp m \<le> fst (hd xs)"
    and xs: "xs \<noteq> []" "int (length xs) = set_MaxMessagesPerMin (room_Settings room)"
            "sorted (map fst xs)"
    and ok: "list_all (\<lambda>res. \<not> isl res) (snd (send_run cs r s xs))"
    and len: "int (length c) \<le> set_MaxMessageLength (room_Settings room)"
  shows "(now - Minute \<le> fst (hd xs) \<longrightarrow>
            snd (SendMessage (fst (send_run cs r s xs)) r s c ty men rep now) = Inl RateLimitExceeded)
       \<and> (fst (hd xs) < now - Minute \<longrightarrow>
            set_SlowModeDelay (room_Settings room) \<le> now - fst (last xs) \<longrightarrow>
            \<not> isl (snd (SendMessage (fst (send_run cs r s xs)) r s c ty men rep now)))"
proof -
  let ?cs' = "fst (send_run cs r s xs)"
  from send_run_all_accepted [OF room ok] xs(1) obtain room' new
    where new: "cs_rooms ?cs' r = Some room'" "room_Settings room' = room_Settings room"
      "room_Messages room' = room_Messages room @ new" "map msg_Timestamp new = map fst xs"
      "\<forall>m\<in>set new. msg_SenderID m = s" "\<not> isMuted room' s" by blast
  from new(4) xs(1) have ne: "new \<noteq> []" by auto
  from new(4) have lnew: "length new = length xs" by (metis length_map)
  from new(4) ne xs(1) have hd: "msg_Timestamp (hd new) = fst (hd xs)"
    by (metis hd_map)
  from new(4) ne xs(1) have lst: "msg_Timestamp (last new) = fst (last xs)"
    by (metis last_map)
  have snew: "sorted (map msg_Timestamp new)" using new(4) xs(3) by simp
  have ge_hd: "\<forall>m\<in>set new. fst (hd xs) \<le> msg_Timestamp m"
  proof -
    from ne obtain m1 ms where n: "new = m1 # ms" by (cases new) auto
    with snew hd show ?thesis by auto
  qed
  have sorted': "sorted (map msg_Timestamp (room_Messages room'))"
    using old snew ge_hd new(3) by (auto simp: sorted_append intro: order_trans)
  let ?P = "\<lambda>m. msg_SenderID m = s \<and> now - Minute \<le> msg_Timestamp m"
  note iff = rate_limited_iff [OF new(1) sorted', of s c ty men rep now]
  show ?thesis
  proof (intro conjI impI)
    assume "now - Minute \<le> fst (hd xs)"
    with ge_hd new(5) have "filter ?P new = new" by (auto simp: filter_id_conv)
    then have "length xs \<le> length (filter ?P (room_Messages room'))"
      using new(3) lnew by simp
    with iff new(2,6) xs(2) len show
      "snd (SendMessage ?cs' r s c ty men rep now) = Inl RateLimitExceeded" by simp
  next
    assume elapsed: "fst (hd xs) < now - Minute"
      and slow: "set_SlowModeDelay (room_Settings room) \<le> now - fst (last xs)"
    from elapsed old(2) have f_old: "filter ?P (room_Messages room) = []"
      by (auto simp: filter_empty_conv)
    from ne obtain m1 ms where n: "new = m1 # ms" by (cases new) auto
    with hd elapsed have f_new: "filter ?P new = filter ?P ms" by simp
    have "length (filter ?P (room_Messages room')) = length (filter ?P ms)"
      using new(3) f_old f_new by simp
    also have "\<dots> \<le> length ms" by (rule length_filter_le)
    also have "\<dots> < length xs" using lnew n by simp
    finally have "length (filter ?P (room_Messages room')) < length xs" .
    then have cnt: "int (countRecentMessages room' s Minute now)
                      < set_MaxMessagesPerMin (room_Settings room')"
      using countRecentMessages_ordered [OF sorted', of s Minute now] xs(2) new(2) by simp
    from ne new(5) have "getLastMessage room' s = Some (last new)"
      by (cases new rule: rev_cases) (simp_all add: getLastMessage_def new(3))
    with slow lst new(2) have
      "case getLastMessage room' s of None \<Rightarrow> True
       | Some l \<Rightarrow> set_SlowModeDelay (room_Settings room') \<le> now - msg_Timestamp l" by simp
    from SendMessage_accepts [OF new(1,6) _ cnt this] len new(2)
    show "\<not> isl (snd (SendMessage ?cs' r s c ty men rep now))" by simp
  qed
qed

text \<open>The log of a room stays ordered by timestamp under every operation that appends
  to it, as long as the clock does not run backwards.\<close>

lemma log_stays_ordered:
  assumes "sorted (map msg_Timestamp (log_of cs r))"
    and "\<forall>m\<in>set (log_of cs r). msg_Timestamp m \<le> now"
  shows "sorted (map msg_Timestamp (log_of (fst (SendMessage cs r s c ty men rep now)) r))"
    and "JoinChatRoom cs r' p name isMod now = Inr cs' \<Longrightarrow>
           sorted (map msg_Timestamp (log_of cs' r))"
    and "LeaveChatRoom cs r' p now = Inr cs'' \<Longrightarrow>
           sorted (map msg_Timestamp (log_of cs'' r))"
  using assms
  by (auto simp: SendMessage_def JoinChatRoom_def LeaveChatRoom_def log_of_def systemMessage_def
        Let_def sorted_append split: option.splits if_splits)

text \<open>
  Claim C6. In a room whose log is ordered by timestamp, a send fails with the
  rate-limit error exactly when the sender is not muted, the content is within the
  length limit, and the number of the sender's messages of the trailing minute is at
  least \<^verbatim>\<open>MaxMessagesPerMin\<close>. And the round trip: let a sender make
  \<^verbatim>\<open>MaxMessagesPerMin\<close> (at least one) sends in a row, all successful, at instants that
  do not decrease and do not precede the log. Then a further send of admissible length
  fails with the rate-limit error as long as the first of those sends lies within its
  trailing minute, and succeeds once that first send is older than a minute (the
  slow-mode delay, if any, having passed since the last one).
\<close>

theorem chat_rate_limit_round_trip:
  assumes "cs_rooms cs r = Some room" and "sorted (map msg_Timestamp (room_Messages room))"
  shows "((snd (SendMessage cs r s c ty men rep now) = Inl RateLimitExceeded) =
            (\<not> isMuted room s \<and> int (length c) \<le> set_MaxMessageLength (room_Settings room) \<and>
             set_MaxMessagesPerMin (room_Settings room) \<le>
               int (length (filter (\<lambda>m. msg_SenderID m = s \<and> now - Minute \<le> msg_Timestamp m)
                              (room_Messages room)))))
       \<and> (xs \<noteq> [] \<longrightarrow> int (length xs) = set_MaxMessagesPerMin (room_Settings room) \<longrightarrow>
          sorted (map fst xs) \<longrightarrow>
          (\<forall>m\<in>set (room_Messages room). msg_Timestamp m \<le> fst (hd xs)) \<longrightarrow>
          list_all (\<lambda>res. \<not> isl res) (snd (send_run cs r s xs)) \<longrightarrow>
          int (length c') \<le> set_MaxMessageLength (room_Settings room) \<longrightarrow>
            (now' - Minute \<le> fst (hd xs) \<longrightarrow>
               snd (SendMessage (fst (send_run cs r s xs)) r s c' ty' men' rep' now')
                 = Inl RateLimitExceeded)
          \<and> (fst (hd xs) < now' - Minute \<longrightarrow>
               set_SlowModeDelay (room_Settings room) \<le> now' - fst (last xs) \<longrightarrow>
               \<not> isl (snd (SendMessage (fst (send_run cs r s xs)) r s c' ty' men' rep' now'))))"
  using rate_limited_iff [OF assms] round_trip [OF assms]
  by blast

text \<open>A room that allows two messages a minute: \<open>bob\<close> sends at 0 s and at 1 s, is
  refused at 2 s, and is accepted again at 61 s.\<close>

theorem chat_rate_limit_round_trip_witness:
  "cs_rooms (chat_with (defaultChatRoomSettings\<lparr>set_MaxMessagesPerMin := 2\<rparr>) False) ''r2'' \<noteq> None
   \<and> list_all (\<lambda>res. \<not> isl res)
        (snd (send_run (chat_with (defaultChatRoomSettings\<lparr>set_MaxMessagesPerMin := 2\<rparr>) False)
                ''r2'' ''bob'' [(0, ''one''), (1000000000, ''two'')]))
   \<and> snd (SendMessage
            (fst (send_run (chat_with (defaultChatRoomSettings\<lparr>set_MaxMessagesPerMin := 2\<rparr>) False)
                    ''r2'' ''bob'' [(0, ''one''), (1000000000, ''two'')]))
            ''r2'' ''bob'' ''three'' ''text'' [] None 2000000000) = Inl RateLimitExceeded
   \<and> \<not> isl (snd (SendMessage
            (fst (send_run (chat_with (defaultChatRoomSettings\<lparr>set_MaxMessagesPerMin := 2\<rparr>) False)
                    ''r2'' ''bob'' [(0, ''one''), (1000000000, ''two'')]))
            ''r2'' ''bob'' ''three'' ''text'' [] None 61000000000))"
proof -
  let ?cs = "chat_with (defaultChatRoomSettings\<lparr>set_MaxMessagesPerMin := 2\<rparr>) False"
  let ?xs = "[(0, ''one''), (1000000000, ''two'')] :: (time \<times> string) list"
  obtain room where room: "cs_rooms ?cs ''r2'' = Some room" "room_Messages room = []"
    "room_Settings room = defaultChatRoomSettings\<lparr>set_MaxMessagesPerMin := 2\<rparr>"
    by (simp add: chat_with_def)
  have ordered: "sorted (map msg_Timestamp (room_Messages room))" using room(2) by simp
  have ok: "list_all (\<lambda>res. \<not> isl res) (snd (send_run ?cs ''r2'' ''bob'' ?xs))"
    by (simp add: chat_with_def defaultChatRoomSettings_def SendMessage_def
         countRecentMessages_def getLastMessage_def Let_def Minute_def Second_def)
  note rt = chat_rate_limit_round_trip [OF room(1) ordered, where xs = ?xs and s = "''bob''"
              and c' = "''three''" and ty' = "''text''" and men' = "[]" and rep' = None]
  have a: "snd (SendMessage (fst (send_run ?cs ''r2'' ''bob'' ?xs))
            ''r2'' ''bob'' ''three'' ''text'' [] None 2000000000) = Inl RateLimitExceeded"
    using rt [where now' = 2000000000] ok room(2,3)
    by (simp add: defaultChatRoomSettings_def Minute_def Second_def)
  have b: "\<not> isl (snd (SendMessage (fst (send_run ?cs ''r2'' ''bob'' ?xs))
            ''r2'' ''bob'' ''three'' ''text'' [] None 61000000000))"
    using rt [where now' = 61000000000] ok room(2,3)
    by (simp add: defaultChatRoomSettings_def Minute_def Second_def)
  from room(1) ok a b show ?thesis by simp
qed

section \<open>Recordings: completion of playback, start rollback, stop through HTTP\<close>

lemma watching_reachable:
  "(case StopRecording (fst (StartRecording (NewVODService None) ''r1'' ''alice'' ''Alice'' ''Show'' 1000))
           ''rec-1000-alice'' d 0 of
      Inl e \<Rightarrow> None
    | Inr v1 \<Rightarrow>
        (case PublishRecording (processRecording v1 ''rec-1000-alice'' 6000) ''rec-1000-alice'' 7000 of
           Inl e \<Rightarrow> None
         | Inr v2 \<Rightarrow>
             (case StartPlaybackSession v2 ''rec-1000-alice'' ''carol'' ''720p'' 8000 of
                Inl e \<Rightarrow> None
              | Inr (v3, s) \<Rightarrow> Some (v3, s))))
   = Some (watching d, carol_session)"
  by (simp add: StartRecording_def NewVODService_def StopRecording_def processRecording_def
       PublishRecording_def StartPlaybackSession_def watching_def carol_session_def
       defaultVODConfig_def Let_def fmt_simps)

lemmas float_simps = reached95_def float64_def mul95_def round53_def roundShift_def bitLen.simps

lemma heartbeat_step:
  assumes "playbackSessions vs sid = Some s"
  shows "\<exists>vs' s'. UpdatePlaybackSession vs sid pos now = Inr vs' \<and>
           recordings vs' = recordings vs \<and>
           playbackSessions vs' sid = Some s' \<and> ps_CurrentPosition s' = pos \<and>
           ps_RecordingID s' = ps_RecordingID s \<and>
           ps_Completed s' =
             (ps_Completed s \<or>
              (\<exists>r. recordings vs (ps_RecordingID s) = Some r \<and> 0 < vod_Duration r \<and>
                   reached95 pos (vod_Duration r)))"
  using assms by (auto simp: UpdatePlaybackSession_def Let_def split: option.splits)

lemma heartbeats_latched:
  assumes "playbackSessions vs sid = Some s" and "ps_Completed s"
  shows "\<exists>s'. playbackSessions (heartbeats vs sid hs) sid = Some s' \<and> ps_Completed s'"
  using assms
proof (induction hs arbitrary: vs s)
  case Nil
  then show ?case by simp
next
  case (Cons h hs)
  obtain pos now where h: "h = (pos, now)" by (cases h)
  from heartbeat_step [OF Cons.prems(1), of pos now] Cons.prems(2) obtain vs' s'
    where "UpdatePlaybackSession vs sid pos now = Inr vs'" "playbackSessions vs' sid = Some s'"
      "ps_Completed s'" by auto
  with Cons.IH [OF this(2,3)] h show ?case by simp
qed

lemma heartbeats_never_complete:
  assumes "playbackSessions vs sid = Some s" and "\<not> ps_Completed s"
    and "\<forall>r. recordings vs (ps_RecordingID s) = Some r \<longrightarrow> vod_Duration r \<le> 0"
  shows "\<exists>s'. playbackSessions (heartbeats vs sid hs) sid = Some s' \<and> \<not> ps_Completed s'"
  using assms
proof (induction hs arbitrary: vs s)
  case Nil
  then show ?case by simp
next
  case (Cons h hs)
  obtain pos now where h: "h = (pos, now)" by (cases h)
  from heartbeat_step [OF Cons.prems(1), of pos now] Cons.prems(2,3) obtain vs' s'
    where st: "UpdatePlaybackSession vs sid pos now = Inr vs'" "playbackSessions vs' sid = Some s'"
      "\<not> ps_Completed s'" "recordings vs' = recordings vs" "ps_RecordingID s' = ps_RecordingID s"
    by fastforce
  with Cons.prems(3)
  have "\<forall>r. recordings vs' (ps_RecordingID s') = Some r \<longrightarrow> vod_Duration r \<le> 0"
    by simp
  from Cons.IH [OF st(2,3) this] st(1) h show ?case by simp
qed

text \<open>
  Claim C4, as the code has it. A heartbeat on an existing session succeeds, stores the
  reported position, and leaves \<open>completed\<close> true exactly when it was true before or
  the recording of the session is in the catalogue with a positive duration and the
  position reaches 0.95 of it in the double-precision comparison of the code. So
  \<open>completed\<close> is set only by a heartbeat whose position has reached 95 percent, and
  once set it stays set under every later run of heartbeats, whatever positions they
  report: it is a latch, not a function of the current position.
\<close>

theorem heartbeat_completed_latch:
  assumes "playbackSessions vs sid = Some s"
  shows "(\<exists>vs' s'. UpdatePlaybackSession vs sid pos now = Inr vs' \<and>
            playbackSessions vs' sid = Some s' \<and> ps_CurrentPosition s' = pos \<and>
            ps_Completed s' =
              (ps_Completed s \<or>
               (\<exists>r. recordings vs (ps_RecordingID s) = Some r \<and> 0 < vod_Duration r \<and>
                    reached95 pos (vod_Duration r))))
       \<and> (ps_Completed s \<longrightarrow>
            (\<exists>s'. playbackSessions (heartbeats vs sid hs) sid = Some s' \<and> ps_Completed s'))"
  using heartbeat_step [OF assms, of pos now] heartbeats_latched [OF assms, of hs]
  by blast

text \<open>On a recording of 100 s, a heartbeat at 95 s completes \<open>carol\<close>'s session.\<close>

theorem heartbeat_completed_latch_witness:
  "playbackSessions (watching 100000000000) ''session-8000-carol'' = Some carol_session
   \<and> map_option ps_Completed
        (playbackSessions
           (heartbeats (watching 100000000000) ''session-8000-carol'' [(95000000000, 9000)])
           ''session-8000-carol'') = Some True"
proof -
  have h: "playbackSessions (watching 100000000000) ''session-8000-carol'' = Some carol_session"
    by (simp add: watching_def)
  have r: "reached95 95000000000 100000000000"
    by (simp add: float_simps Let_def)
  from heartbeat_completed_latch [OF h, of 95000000000 9000 "[]"] h r
  show ?thesis
    by (auto simp: watching_def carol_session_def)
qed

text \<open>The claim as worded wants the position to be at least 0.95 of the duration in
  every state in which \<open>completed\<close> is true. After a heartbeat at 100 s and a second
  one at 0 s on the recording of 100 s, the session is completed at position 0.\<close>

theorem completed_position_counterexample:
  "map_option ps_Completed
     (playbackSessions
        (heartbeats (watching 100000000000) ''session-8000-carol''
           [(100000000000, 9000), (0, 10000)]) ''session-8000-carol'') = Some True
   \<and> map_option ps_CurrentPosition
       (playbackSessions
          (heartbeats (watching 100000000000) ''session-8000-carol''
             [(100000000000, 9000), (0, 10000)]) ''session-8000-carol'') = Some 0
   \<and> map_option vod_Duration
       (recordings
          (heartbeats (watching 100000000000) ''session-8000-carol''
             [(100000000000, 9000), (0, 10000)]) ''rec-1000-alice'') = Some 100000000000
   \<and> \<not> (95 * (100000000000 :: int) \<le> 100 * 0)
   \<and> \<not> reached95 0 100000000000"
  by (simp add: watching_def carol_session_def UpdatePlaybackSession_def float_simps Let_def)

lemma started_session:
  assumes "StartPlaybackSession vs rid user quality t = Inr (vs', s)"
  shows "playbackSessions vs' (ps_ID s) = Some s \<and> \<not> ps_Completed s \<and> ps_RecordingID s = rid
       \<and> (\<exists>r. recordings vs rid = Some r \<and>
              recordings vs' rid = Some (r\<lparr>vod_ViewCount := vod_ViewCount r + 1\<rparr>))"
  using assms
  by (auto simp: StartPlaybackSession_def Let_def split: option.splits if_splits)

text \<open>
  Claim C10. A stop issued through the HTTP endpoint that succeeds on a recording leaves
  that recording with duration 0. For a session that is not completed and whose
  recording has no positive duration (or is no longer in the catalogue), every run of
  heartbeats, whatever positions they report, leaves the session not completed. In
  particular a session just started on a recording without positive duration is never
  completed by heartbeats.
\<close>

theorem zero_duration_never_completes:
  "(snd (handleStopRecording vs method (Some req)) = HttpOK () \<longrightarrow> req_RecordingID req \<noteq> [] \<longrightarrow>
       map_option vod_Duration
         (recordings (fst (handleStopRecording vs method (Some req))) (req_RecordingID req)) = Some 0)
   \<and> (playbackSessions vs' sid = Some s \<longrightarrow> \<not> ps_Completed s \<longrightarrow>
       (\<forall>r. recordings vs' (ps_RecordingID s) = Some r \<longrightarrow> vod_Duration r \<le> 0) \<longrightarrow>
       (\<exists>s'. playbackSessions (heartbeats vs' sid hs) sid = Some s' \<and> \<not> ps_Completed s'))
   \<and> (StartPlaybackSession vs0 rid user quality t = Inr (vs1, s1) \<longrightarrow>
       (\<forall>r. recordings vs0 rid = Some r \<longrightarrow> vod_Duration r \<le> 0) \<longrightarrow>
       (\<exists>s'. playbackSessions (heartbeats vs1 (ps_ID s1) hs1) (ps_ID s1) = Some s'
             \<and> \<not> ps_Completed s'))"
proof (intro conjI impI)
  assume "snd (handleStopRecording vs method (Some req)) = HttpOK ()" "req_RecordingID req \<noteq> []"
  then show "map_option vod_Duration
         (recordings (fst (handleStopRecording vs method (Some req))) (req_RecordingID req)) = Some 0"
    by (auto simp: handleStopRecording_def StopRecording_def
        split: if_splits option.splits sum.splits)
next
  assume "playbackSessions vs' sid = Some s" "\<not> ps_Completed s"
    "\<forall>r. recordings vs' (ps_RecordingID s) = Some r \<longrightarrow> vod_Duration r \<le> 0"
  from heartbeats_never_complete [OF this]
  show "\<exists>s'. playbackSessions (heartbeats vs' sid hs) sid = Some s' \<and> \<not> ps_Completed s'" .
next
  assume st: "StartPlaybackSession vs0 rid user quality t = Inr (vs1, s1)"
    and z: "\<forall>r. recordings vs0 rid = Some r \<longrightarrow> vod_Duration r \<le> 0"
  from started_session [OF st] obtain r where s: "playbackSessions vs1 (ps_ID s1) = Some s1"
    "\<not> ps_Completed s1" "ps_RecordingID s1 = rid" "recordings vs0 rid = Some r"
    "recordings vs1 rid = Some (r\<lparr>vod_ViewCount := vod_ViewCount r + 1\<rparr>)" by blast
  with z have "\<forall>r'. recordings vs1 (ps_RecordingID s1) = Some r' \<longrightarrow> vod_Duration r' \<le> 0"
    by auto
  from heartbeats_never_complete [OF s(1,2) this]
  show "\<exists>s'. playbackSessions (heartbeats vs1 (ps_ID s1) hs1) (ps_ID s1) = Some s'
             \<and> \<not> ps_Completed s'" .
qed

text \<open>\<open>alice\<close>'s recording is stopped through the endpoint; on the published recording
  of duration 0, heartbeats at 1000 s and at 2000 s leave \<open>carol\<close>'s session not
  completed.\<close>

theorem zero_duration_never_completes_witness:
  "snd (handleStopRecording
          (fst (StartRecording (NewVODService None) ''r1'' ''alice'' ''Alice'' ''Show'' 1000)) ''POST''
          (Some \<lparr>req_RecordingID = ''rec-1000-alice'', req_EgressID = ''EG_1''\<rparr>)) = HttpOK ()
   \<and> map_option vod_Duration
       (recordings
          (fst (handleStopRecording
             (fst (StartRecording (NewVODService None) ''r1'' ''alice'' ''Alice'' ''Show'' 1000)) ''POST''
             (Some \<lparr>req_RecordingID = ''rec-1000-alice'', req_EgressID = ''EG_1''\<rparr>)))
          ''rec-1000-alice'') = Some 0
   \<and> playbackSessions (watching 0) ''session-8000-carol'' = Some carol_session
   \<and> map_option ps_Completed
       (playbackSessions
          (heartbeats (watching 0) ''session-8000-carol''
             [(1000000000000, 9000), (2000000000000, 10000)]) ''session-8000-carol'') = Some False"
proof -
  let ?vs = "fst (StartRecording (NewVODService None) ''r1'' ''alice'' ''Alice'' ''Show'' 1000)"
  let ?req = "\<lparr>req_RecordingID = ''rec-1000-alice'', req_EgressID = ''EG_1''\<rparr>"
  let ?hs = "[(1000000000000, 9000), (2000000000000, 10000)] :: (duration \<times> time) list"
  have a: "snd (handleStopRecording ?vs ''POST'' (Some ?req)) = HttpOK ()"
    by (simp add: handleStopRecording_def StopRecording_def StartRecording_def
         NewVODService_def Let_def fmt_simps)
  have b: "playbackSessions (watching 0) ''session-8000-carol'' = Some carol_session"
    and c: "\<not> ps_Completed carol_session"
    and d: "\<forall>r. recordings (watching 0) (ps_RecordingID carol_session) = Some r
                 \<longrightarrow> vod_Duration r \<le> 0"
    by (auto simp: watching_def carol_session_def)
  note t = zero_duration_never_completes [of ?vs "''POST''" ?req "watching 0"
             "''session-8000-carol''" carol_session ?hs]
  from t a have "map_option vod_Duration
       (recordings (fst (handleStopRecording ?vs ''POST'' (Some ?req))) ''rec-1000-alice'') = Some 0"
    by simp
  moreover from t b c d have "map_option ps_Completed
       (playbackSessions (heartbeats (watching 0) ''session-8000-carol'' ?hs)
          ''session-8000-carol'') = Some False"
    by auto
  ultimately show ?thesis using a b by blast
qed

text \<open>
  Claim C8. When the body decodes, names a room and a streamer, and the encoder's start
  RPC fails on the request for the reserved recording, the start endpoint answers with
  status 500 and leaves no entry under the reserved identifier and the playback
  sessions untouched. Provided the identifier was not in use before (it is built from
  the nanosecond clock and the streamer), the catalogue of recordings is exactly what
  it was, and so is the list of recordings of every streamer.
\<close>

theorem failed_egress_rolls_back:
  assumes "req_RoomName req \<noteq> []" and "req_StreamerID req \<noteq> []"
    and "startEgress \<lparr>eg_RoomName = req_RoomName req, eg_Layout = ''grid-light'',
            eg_AudioOnly = False,
            eg_Filepath = ''/out/'' @ (''rec-'' @ fmt_d now @ ''-'' @ req_StreamerID req) @ ''.mp4''\<rparr>
         = None"
  shows "snd (handleStartRecording vs startEgress (Some req) now) = HttpError 500
       \<and> recordings (fst (handleStartRecording vs startEgress (Some req) now))
            (''rec-'' @ fmt_d now @ ''-'' @ req_StreamerID req) = None
       \<and> playbackSessions (fst (handleStartRecording vs startEgress (Some req) now))
            = playbackSessions vs
       \<and> (recordings vs (''rec-'' @ fmt_d now @ ''-'' @ req_StreamerID req) = None \<longrightarrow>
          ''rec-'' @ fmt_d now @ ''-'' @ req_StreamerID req
             \<notin> set (recordingIDsOf vs (req_StreamerID req)) \<longrightarrow>
            recordings (fst (handleStartRecording vs startEgress (Some req) now)) = recordings vs
          \<and> (\<forall>st. recordingIDsOf (fst (handleStartRecording vs startEgress (Some req) now)) st
                    = recordingIDsOf vs st))"
  using assms
  by (auto simp: handleStartRecording_def StartRecording_def DeleteRecording_def
        removeFromIndex_def recordingIDsOf_def Let_def fun_upd_idem remove1_append
        split: option.splits)

text \<open>\<open>alice\<close> starts a recording on an empty catalogue while the encoder is down.\<close>

theorem failed_egress_rolls_back_witness:
  "req_RoomName alice_request \<noteq> [] \<and> req_StreamerID alice_request \<noteq> []
   \<and> snd (handleStartRecording (NewVODService None) egress_down (Some alice_request) 1000)
       = HttpError 500
   \<and> recordings (fst (handleStartRecording (NewVODService None) egress_down (Some alice_request) 1000))
       = Map.empty
   \<and> recordingIDsOf
       (fst (handleStartRecording (NewVODService None) egress_down (Some alice_request) 1000))
       ''alice'' = []"
proof -
  have a: "req_RoomName alice_request \<noteq> []" and b: "req_StreamerID alice_request \<noteq> []"
    by (simp_all add: alice_request_def)
  have c: "egress_down \<lparr>eg_RoomName = req_RoomName alice_request, eg_Layout = ''grid-light'',
            eg_AudioOnly = False,
            eg_Filepath = ''/out/'' @ (''rec-'' @ fmt_d 1000 @ ''-'' @ req_StreamerID alice_request)
                            @ ''.mp4''\<rparr> = None"
    by (simp add: egress_down_def)
  have d: "recordings (NewVODService None) = Map.empty"
    and e: "recordingIDsOf (NewVODService None) ''alice'' = []"
    by (simp_all add: NewVODService_def recordingIDsOf_def)
  from failed_egress_rolls_back [where startEgress = egress_down and req = alice_request
         and now = 1000 and vs = "NewVODService None", OF a b c] a b d e
  show ?thesis by (simp add: alice_request_def)
qed

end
